theory Spec2Isabelle
  imports Complex_Main "HOL-Library.Product_Lexorder" "HOL-Library.Multiset"
begin

section \<open>Data model of the alternative-generation engine (lab2/algorithms.py)\<close>

text \<open>
  Hours, scores and ratios are Python floats in the source. They are modelled by exact
  rational arithmetic (\<^typ>\<open>rat\<close>): comparison, addition, subtraction, multiplication and
  division are the mathematical ones, where the source rounds the result of every
  addition, subtraction, multiplication and division to the nearest double. A sum or a
  difference of several hours can therefore differ from the program's value in the last
  binary digit, and a loop of the program can stop one step earlier or later than the
  model's. The statements below are chosen to be independent of that rounding: they are
  evaluated at inputs where the float computation is exact, or they compare single
  values that the source compares in the same way. Identifiers and priorities are integers. The
  dictionaries \<open>resource_hours\<close>, \<open>resource_allocated\<close> and \<open>task_requirements\<close> are
  built from the very lists whose elements are later used as keys, so a lookup never
  misses; they are functions from the id to the value (0 where no key was stored, a
  value the source never reads).
\<close>

record resource =
  r_id :: int
  r_name :: string
  r_type :: string
  available_hours :: rat

record task =
  t_id :: int
  title :: string
  required_hours :: rat
  priority :: int

record allocation =
  resource_id :: int
  task_id :: int
  hours :: rat

text \<open>
  The explanation of an alternative is a formatted text; the model keeps which strategy
  wrote it and the values that are interpolated into it.
\<close>

datatype explanation =
    Priority_text rat "int option"
  | Balanced_text rat
  | Specialization_text "string list" rat nat rat
  | Overload_text rat rat
  | Greedy_text rat rat

record alternative =
  explanation :: explanation
  score :: rat
  allocations :: "allocation list"

datatype py_error = ZeroDivisionError

definition py_div :: "rat \<Rightarrow> rat \<Rightarrow> py_error + rat" where
  "py_div a b = (if b = 0 then Inl ZeroDivisionError else Inr (a / b))"

text \<open>A generator expression whose element can raise: the first error stops it.\<close>

fun traverse :: "('a \<Rightarrow> py_error + 'b) \<Rightarrow> 'a list \<Rightarrow> py_error + 'b list" where
  "traverse f [] = Inr []"
| "traverse f (x # xs) =
     (case f x of
        Inl e \<Rightarrow> Inl e
      | Inr y \<Rightarrow> (case traverse f xs of Inl e \<Rightarrow> Inl e | Inr ys \<Rightarrow> Inr (y # ys)))"

text \<open>\<open>{x.id: v(x) for x in xs}\<close>: a later element with the same id overwrites.\<close>

definition dict_of :: "('a \<Rightarrow> int) \<Rightarrow> ('a \<Rightarrow> rat) \<Rightarrow> 'a list \<Rightarrow> int \<Rightarrow> rat" where
  "dict_of k v xs = foldl (\<lambda>m x. m(k x := v x)) (\<lambda>_. 0) xs"

text \<open>
  \<open>round(x, 1)\<close>: the nearest multiple of one tenth, a tie going to the even digit.
\<close>

definition py_round1 :: "rat \<Rightarrow> rat" where
  "py_round1 x =
     (let y = x * 10; f = \<lfloor>y\<rfloor>; d = y - of_int f
      in of_int (if d < 1 / 2 then f
                 else if 1 / 2 < d then f + 1
                 else if even f then f else f + 1) / 10)"

subsection \<open>The locals shared by the allocation loops\<close>

record loop_state =
  resource_hours :: "int \<Rightarrow> rat"
  resource_allocated :: "int \<Rightarrow> rat"
  allocs :: "allocation list"
  total_allocated :: rat
  type_matches :: nat

definition init_state :: "resource list \<Rightarrow> loop_state" where
  "init_state resources =
     \<lparr>resource_hours = dict_of r_id available_hours resources,
      resource_allocated = dict_of r_id (\<lambda>_. 0) resources,
      allocs = [],
      total_allocated = 0,
      type_matches = 0\<rparr>"

text \<open>
  \<open>allocations.append({...}); resource_hours[resource.id] -= hours_to_allocate\<close>
\<close>

definition commit :: "resource \<Rightarrow> task \<Rightarrow> rat \<Rightarrow> loop_state \<Rightarrow> loop_state" where
  "commit r t h s =
     s\<lparr>allocs := allocs s @ [\<lparr>resource_id = r_id r, task_id = t_id t, hours = h\<rparr>],
       resource_hours := (resource_hours s)(r_id r := resource_hours s (r_id r) - h)\<rparr>"

text \<open>\<open>resource_allocated[resource.id] += hours_to_allocate\<close>\<close>

definition add_load :: "resource \<Rightarrow> rat \<Rightarrow> loop_state \<Rightarrow> loop_state" where
  "add_load r h s =
     s\<lparr>resource_allocated := (resource_allocated s)(r_id r := resource_allocated s (r_id r) + h)\<rparr>"

text \<open>\<open>total_allocated += hours_to_allocate\<close>\<close>

definition add_total :: "rat \<Rightarrow> loop_state \<Rightarrow> loop_state" where
  "add_total h s = s\<lparr>total_allocated := total_allocated s + h\<rparr>"

definition total_required_of :: "task list \<Rightarrow> rat" where
  "total_required_of tasks = sum_list (map required_hours tasks)"

definition total_available_of :: "resource list \<Rightarrow> rat" where
  "total_available_of resources = sum_list (map available_hours resources)"

text \<open>\<open>coverage = total_allocated / total_required if total_required > 0 else 0\<close>\<close>

definition coverage_of :: "rat \<Rightarrow> rat \<Rightarrow> rat" where
  "coverage_of total_alloc total_req = (if 0 < total_req then total_alloc / total_req else 0)"

text \<open>
  The dictionaries \<open>priority_coverage\<close> and \<open>task_coverage\<close>: hours accumulated per
  task id, read with \<open>.get(id, 0)\<close>.
\<close>

definition hours_by_task :: "allocation list \<Rightarrow> int \<Rightarrow> rat" where
  "hours_by_task as = foldl (\<lambda>m a. m(task_id a := m (task_id a) + hours a)) (\<lambda>_. 0) as"

text \<open>\<open>sum(a["hours"] for a in allocations if a["resource_id"] == r.id)\<close>\<close>

definition hours_of_resource :: "allocation list \<Rightarrow> int \<Rightarrow> rat" where
  "hours_of_resource as i = sum_list (map hours (filter (\<lambda>a. resource_id a = i) as))"

section \<open>Strategy 1: allocation by task priority\<close>

fun priority_walk :: "task \<Rightarrow> resource list \<Rightarrow> rat \<Rightarrow> loop_state \<Rightarrow> loop_state" where
  "priority_walk t [] remaining_need s = s"
| "priority_walk t (r # rs) remaining_need s =
     (if remaining_need \<le> 0 then s
      else if 0 < resource_hours s (r_id r) then
        (let hours_to_allocate = min remaining_need (resource_hours s (r_id r))
         in priority_walk t rs (remaining_need - hours_to_allocate)
              (add_total hours_to_allocate (commit r t hours_to_allocate s)))
      else priority_walk t rs remaining_need s)"

fun priority_tasks :: "resource list \<Rightarrow> (int \<Rightarrow> rat) \<Rightarrow> task list \<Rightarrow> loop_state \<Rightarrow> loop_state" where
  "priority_tasks resources task_requirements [] s = s"
| "priority_tasks resources task_requirements (t # ts) s =
     priority_tasks resources task_requirements ts
       (priority_walk t resources (task_requirements (t_id t)) s)"

definition priority_loop :: "resource list \<Rightarrow> task list \<Rightarrow> loop_state" where
  "priority_loop resources tasks =
     priority_tasks resources (dict_of t_id required_hours tasks)
       (sort_key priority tasks) (init_state resources)"

definition priority_bonus :: "task list \<Rightarrow> task list \<Rightarrow> allocation list \<Rightarrow> py_error + rat" where
  "priority_bonus sorted_tasks tasks as =
     (if tasks \<noteq> [] then
        (case traverse (\<lambda>t. case py_div (hours_by_task as (t_id t)) (required_hours t) of
                               Inl e \<Rightarrow> Inl e
                             | Inr q \<Rightarrow> Inr (of_int (6 - priority t) * min 1 q)) sorted_tasks of
           Inl e \<Rightarrow> Inl e
         | Inr terms \<Rightarrow> Inr (sum_list terms / of_nat (length tasks)))
      else Inr 0)"

definition overload_penalty :: "resource list \<Rightarrow> allocation list \<Rightarrow> rat \<Rightarrow> rat" where
  "overload_penalty resources as total_required =
     (if 0 < total_required then
        sum_list (map (\<lambda>r. max 0 (hours_of_resource as (r_id r) - available_hours r)) resources)
          / total_required
      else 0)"

definition priority_score :: "rat \<Rightarrow> rat \<Rightarrow> rat \<Rightarrow> rat" where
  "priority_score coverage bonus penalty = max 0 (coverage * 50 + bonus * 20 - penalty * 30)"

definition priority_based_allocation :: "resource list \<Rightarrow> task list \<Rightarrow> py_error + alternative option" where
  "priority_based_allocation resources tasks =
     (let sorted_tasks = sort_key priority tasks;
          s = priority_loop resources tasks;
          total_required = total_required_of tasks;
          coverage = coverage_of (total_allocated s) total_required
      in case priority_bonus sorted_tasks tasks (allocs s) of
           Inl e \<Rightarrow> Inl e
         | Inr bonus \<Rightarrow>
             Inr (Some \<lparr>explanation = Priority_text coverage
                          (case sorted_tasks of [] \<Rightarrow> None | t # _ \<Rightarrow> Some (priority t)),
                        score = priority_score coverage bonus
                                  (overload_penalty resources (allocs s) total_required),
                        allocations = allocs s\<rparr>))"

section \<open>Strategy 2: balanced (proportional) allocation\<close>

fun balanced_walk :: "task \<Rightarrow> rat \<Rightarrow> resource list \<Rightarrow> rat \<Rightarrow> loop_state \<Rightarrow> loop_state" where
  "balanced_walk t task_share [] allocated_to_task s = s"
| "balanced_walk t task_share (r # rs) allocated_to_task s =
     (if task_share \<le> allocated_to_task then s
      else if 0 < resource_hours s (r_id r) then
        (let remaining_need = task_share - allocated_to_task;
             hours_to_allocate = min remaining_need (resource_hours s (r_id r))
         in balanced_walk t task_share rs (allocated_to_task + hours_to_allocate)
              (add_total hours_to_allocate (commit r t hours_to_allocate s)))
      else balanced_walk t task_share rs allocated_to_task s)"

fun balanced_tasks ::
  "resource list \<Rightarrow> (int \<Rightarrow> rat) \<Rightarrow> rat \<Rightarrow> task list \<Rightarrow> loop_state \<Rightarrow> loop_state" where
  "balanced_tasks resources task_proportions total_available [] s = s"
| "balanced_tasks resources task_proportions total_available (t # ts) s =
     balanced_tasks resources task_proportions total_available ts
       (balanced_walk t (task_proportions (t_id t) * total_available) resources 0 s)"

definition balanced_loop :: "resource list \<Rightarrow> task list \<Rightarrow> loop_state" where
  "balanced_loop resources tasks =
     balanced_tasks resources
       (dict_of t_id (\<lambda>t. required_hours t / total_required_of tasks) tasks)
       (total_available_of resources) tasks (init_state resources)"

text \<open>The dictionary \<open>resource_load\<close> of \<open>_calculate_balance_variance\<close>.\<close>

definition hours_by_resource :: "allocation list \<Rightarrow> int \<Rightarrow> rat" where
  "hours_by_resource as =
     foldl (\<lambda>m a. m(resource_id a := m (resource_id a) + hours a)) (\<lambda>_. 0) as"

definition variance_of :: "rat list \<Rightarrow> rat" where
  "variance_of xs =
     (let mean = sum_list xs / of_nat (length xs)
      in sum_list (map (\<lambda>x. (x - mean) ^ 2) xs) / of_nat (length xs))"

definition calculate_balance_variance :: "resource list \<Rightarrow> allocation list \<Rightarrow> rat" where
  "calculate_balance_variance resources as =
     (let loads = map (\<lambda>r. if 0 < available_hours r
                            then hours_by_resource as (r_id r) / available_hours r else 0)
                      resources
      in if loads = [] then 0 else min 1 (variance_of loads))"

definition task_coverage_variance :: "task list \<Rightarrow> allocation list \<Rightarrow> py_error + rat" where
  "task_coverage_variance tasks as =
     (if tasks \<noteq> [] then
        (case traverse (\<lambda>t. py_div (hours_by_task as (t_id t)) (required_hours t)) tasks of
           Inl e \<Rightarrow> Inl e
         | Inr coverage_ratios \<Rightarrow> Inr (variance_of coverage_ratios))
      else Inr 0)"

definition balanced_allocation :: "resource list \<Rightarrow> task list \<Rightarrow> py_error + alternative option" where
  "balanced_allocation resources tasks =
     (let total_available = total_available_of resources;
          total_required = total_required_of tasks
      in if total_available = 0 \<or> total_required = 0 then Inr None
         else
           (let s = balanced_loop resources tasks;
                coverage = coverage_of (total_allocated s) total_required;
                balance_score = 1 - calculate_balance_variance resources (allocs s)
            in case task_coverage_variance tasks (allocs s) of
                 Inl e \<Rightarrow> Inl e
               | Inr v \<Rightarrow>
                   Inr (Some \<lparr>explanation = Balanced_text coverage,
                              score = coverage * 40 + balance_score * 25 + (1 - min 1 v) * 15,
                              allocations = allocs s\<rparr>)))"

section \<open>Strategy 3: allocation by specialization\<close>

text \<open>
  Python strings are sequences of code points; the model keeps them as UTF-8 byte
  strings, on which the substring test gives the same answer. \<open>str.lower\<close> is modelled
  on the two alphabets of the keyword table, Latin and Russian Cyrillic; every other
  byte is kept.
\<close>

definition byte :: "char \<Rightarrow> nat" where
  "byte c = of_char c"

definition ascii_lower :: "char \<Rightarrow> char" where
  "ascii_lower c = (if 65 \<le> byte c \<and> byte c \<le> 90 then char_of (byte c + 32) else c)"

fun py_lower :: "string \<Rightarrow> string" where
  "py_lower [] = []"
| "py_lower [c] = [ascii_lower c]"
| "py_lower (c # d # cs) =
     (if byte c = 0xD0 \<and> 0x90 \<le> byte d \<and> byte d \<le> 0x9F
        then c # char_of (byte d + 32) # py_lower cs
      else if byte c = 0xD0 \<and> 0xA0 \<le> byte d \<and> byte d \<le> 0xAF
        then CHR 0xD1 # char_of (byte d - 32) # py_lower cs
      else if byte c = 0xD0 \<and> byte d = 0x81
        then CHR 0xD1 # CHR 0x91 # py_lower cs
      else ascii_lower c # py_lower (d # cs))"

fun starts_with :: "string \<Rightarrow> string \<Rightarrow> bool" where
  "starts_with xs [] = True"
| "starts_with [] (k # ks) = False"
| "starts_with (x # xs) (k # ks) = (x = k \<and> starts_with xs ks)"

text \<open>\<open>keyword in text\<close>\<close>

fun py_in :: "string \<Rightarrow> string \<Rightarrow> bool" where
  "py_in keyword [] = (keyword = [])"
| "py_in keyword (x # xs) = (starts_with (x # xs) keyword \<or> py_in keyword xs)"

definition type_matching :: "(string \<times> string list) list" where
  "type_matching =
     [
      ([CHR 0xD1, CHR 0x80, CHR 0xD0, CHR 0xB0, CHR 0xD0, CHR 0xB7, CHR 0xD1, CHR 0x80,
       CHR 0xD0, CHR 0xB0, CHR 0xD0, CHR 0xB1, CHR 0xD0, CHR 0xBE, CHR 0xD1, CHR 0x82,
       CHR 0xD1, CHR 0x87, CHR 0xD0, CHR 0xB8, CHR 0xD0, CHR 0xBA],
       [[CHR 0xD1, CHR 0x80, CHR 0xD0, CHR 0xB0, CHR 0xD0, CHR 0xB7, CHR 0xD1, CHR 0x80,
        CHR 0xD0, CHR 0xB0, CHR 0xD0, CHR 0xB1, CHR 0xD0, CHR 0xBE, CHR 0xD1, CHR 0x82,
        CHR 0xD0, CHR 0xBA, CHR 0xD0, CHR 0xB0],
        [CHR 0xD0, CHR 0xBA, CHR 0xD0, CHR 0xBE, CHR 0xD0, CHR 0xB4],
        [CHR 0xD0, CHR 0xBF, CHR 0xD1, CHR 0x80, CHR 0xD0, CHR 0xBE, CHR 0xD0, CHR 0xB3,
        CHR 0xD1, CHR 0x80, CHR 0xD0, CHR 0xB0, CHR 0xD0, CHR 0xBC, CHR 0xD0, CHR 0xBC,
        CHR 0xD0, CHR 0xB8, CHR 0xD1, CHR 0x80, CHR 0xD0, CHR 0xBE, CHR 0xD0, CHR 0xB2,
        CHR 0xD0, CHR 0xB0, CHR 0xD0, CHR 0xBD, CHR 0xD0, CHR 0xB8, CHR 0xD0, CHR 0xB5],
        [CHR 0xD1, CHR 0x84, CHR 0xD1, CHR 0x83, CHR 0xD0, CHR 0xBD, CHR 0xD0, CHR 0xBA,
        CHR 0xD1, CHR 0x86, CHR 0xD0, CHR 0xB8, CHR 0xD0, CHR 0xBE, CHR 0xD0, CHR 0xBD,
        CHR 0xD0, CHR 0xB0, CHR 0xD0, CHR 0xBB],
        [CHR 0xD1, CHR 0x81, CHR 0xD0, CHR 0xB8, CHR 0xD1, CHR 0x81, CHR 0xD1, CHR 0x82,
        CHR 0xD0, CHR 0xB5, CHR 0xD0, CHR 0xBC, CHR 0xD0, CHR 0xB0]]),
      ([CHR 0xD0, CHR 0xB4, CHR 0xD0, CHR 0xB8, CHR 0xD0, CHR 0xB7, CHR 0xD0, CHR 0xB0,
       CHR 0xD0, CHR 0xB9, CHR 0xD0, CHR 0xBD, CHR 0xD0, CHR 0xB5, CHR 0xD1, CHR 0x80],
       [[CHR 0xD0, CHR 0xB4, CHR 0xD0, CHR 0xB8, CHR 0xD0, CHR 0xB7, CHR 0xD0, CHR 0xB0,
        CHR 0xD0, CHR 0xB9, CHR 0xD0, CHR 0xBD],
        [CHR 0xD0, CHR 0xB8, CHR 0xD0, CHR 0xBD, CHR 0xD1, CHR 0x82, CHR 0xD0, CHR 0xB5,
        CHR 0xD1, CHR 0x80, CHR 0xD1, CHR 0x84, CHR 0xD0, CHR 0xB5, CHR 0xD0, CHR 0xB9,
        CHR 0xD1, CHR 0x81],
        ''ui'',
        ''ux'',
        [CHR 0xD0, CHR 0xBC, CHR 0xD0, CHR 0xB0, CHR 0xD0, CHR 0xBA, CHR 0xD0, CHR 0xB5,
        CHR 0xD1, CHR 0x82]]),
      ([CHR 0xD1, CHR 0x82, CHR 0xD0, CHR 0xB5, CHR 0xD1, CHR 0x81, CHR 0xD1, CHR 0x82,
       CHR 0xD0, CHR 0xB8, CHR 0xD1, CHR 0x80, CHR 0xD0, CHR 0xBE, CHR 0xD0, CHR 0xB2,
       CHR 0xD1, CHR 0x89, CHR 0xD0, CHR 0xB8, CHR 0xD0, CHR 0xBA],
       [[CHR 0xD1, CHR 0x82, CHR 0xD0, CHR 0xB5, CHR 0xD1, CHR 0x81, CHR 0xD1, CHR 0x82,
        CHR 0xD0, CHR 0xB8, CHR 0xD1, CHR 0x80, CHR 0xD0, CHR 0xBE, CHR 0xD0, CHR 0xB2,
        CHR 0xD0, CHR 0xB0, CHR 0xD0, CHR 0xBD, CHR 0xD0, CHR 0xB8, CHR 0xD0, CHR 0xB5],
        [CHR 0xD1, CHR 0x82, CHR 0xD0, CHR 0xB5, CHR 0xD1, CHR 0x81, CHR 0xD1, CHR 0x82],
        [CHR 0xD0, CHR 0xBF, CHR 0xD1, CHR 0x80, CHR 0xD0, CHR 0xBE, CHR 0xD0, CHR 0xB2,
        CHR 0xD0, CHR 0xB5, CHR 0xD1, CHR 0x80, CHR 0xD0, CHR 0xBA, CHR 0xD0, CHR 0xB0],
        ''qa'']),
      ([CHR 0xD0, CHR 0xB0, CHR 0xD0, CHR 0xBD, CHR 0xD0, CHR 0xB0, CHR 0xD0, CHR 0xBB,
       CHR 0xD0, CHR 0xB8, CHR 0xD1, CHR 0x82, CHR 0xD0, CHR 0xB8, CHR 0xD0, CHR 0xBA],
       [[CHR 0xD0, CHR 0xB0, CHR 0xD0, CHR 0xBD, CHR 0xD0, CHR 0xB0, CHR 0xD0, CHR 0xBB,
        CHR 0xD0, CHR 0xB8, CHR 0xD0, CHR 0xB7],
        [CHR 0xD1, CHR 0x82, CHR 0xD1, CHR 0x80, CHR 0xD0, CHR 0xB5, CHR 0xD0, CHR 0xB1,
        CHR 0xD0, CHR 0xBE, CHR 0xD0, CHR 0xB2, CHR 0xD0, CHR 0xB0, CHR 0xD0, CHR 0xBD,
        CHR 0xD0, CHR 0xB8, CHR 0xD1, CHR 0x8F],
        [CHR 0xD0, CHR 0xB4, CHR 0xD0, CHR 0xBE, CHR 0xD0, CHR 0xBA, CHR 0xD1, CHR 0x83,
        CHR 0xD0, CHR 0xBC, CHR 0xD0, CHR 0xB5, CHR 0xD0, CHR 0xBD, CHR 0xD1, CHR 0x82,
        CHR 0xD0, CHR 0xB0, CHR 0xD1, CHR 0x86, CHR 0xD0, CHR 0xB8, CHR 0xD1, CHR 0x8F],
        [CHR 0xD0, CHR 0xB8, CHR 0xD1, CHR 0x81, CHR 0xD1, CHR 0x81, CHR 0xD0, CHR 0xBB,
        CHR 0xD0, CHR 0xB5, CHR 0xD0, CHR 0xB4, CHR 0xD0, CHR 0xBE, CHR 0xD0, CHR 0xB2,
        CHR 0xD0, CHR 0xB0, CHR 0xD0, CHR 0xBD, CHR 0xD0, CHR 0xB8, CHR 0xD0, CHR 0xB5]]),
      ([CHR 0xD0, CHR 0xBC, CHR 0xD0, CHR 0xB5, CHR 0xD0, CHR 0xBD, CHR 0xD0, CHR 0xB5,
       CHR 0xD0, CHR 0xB4, CHR 0xD0, CHR 0xB6, CHR 0xD0, CHR 0xB5, CHR 0xD1, CHR 0x80,
       CHR 0x20, CHR 0xD0, CHR 0xBF, CHR 0xD1, CHR 0x80, CHR 0xD0, CHR 0xBE, CHR 0xD0,
       CHR 0xB5, CHR 0xD0, CHR 0xBA, CHR 0xD1, CHR 0x82, CHR 0xD0, CHR 0xB0],
       [[CHR 0xD0, CHR 0xBF, CHR 0xD1, CHR 0x80, CHR 0xD0, CHR 0xBE, CHR 0xD0, CHR 0xB5,
        CHR 0xD0, CHR 0xBA, CHR 0xD1, CHR 0x82],
        [CHR 0xD1, CHR 0x83, CHR 0xD0, CHR 0xBF, CHR 0xD1, CHR 0x80, CHR 0xD0, CHR 0xB0,
        CHR 0xD0, CHR 0xB2, CHR 0xD0, CHR 0xBB, CHR 0xD0, CHR 0xB5, CHR 0xD0, CHR 0xBD,
        CHR 0xD0, CHR 0xB8, CHR 0xD0, CHR 0xB5],
        [CHR 0xD0, CHR 0xBA, CHR 0xD0, CHR 0xBE, CHR 0xD0, CHR 0xBE, CHR 0xD1, CHR 0x80,
        CHR 0xD0, CHR 0xB4, CHR 0xD0, CHR 0xB8, CHR 0xD0, CHR 0xBD, CHR 0xD0, CHR 0xB0,
        CHR 0xD1, CHR 0x86, CHR 0xD0, CHR 0xB8, CHR 0xD1, CHR 0x8F],
        [CHR 0xD0, CHR 0xBF, CHR 0xD0, CHR 0xBB, CHR 0xD0, CHR 0xB0, CHR 0xD0, CHR 0xBD,
        CHR 0xD0, CHR 0xB8, CHR 0xD1, CHR 0x80, CHR 0xD0, CHR 0xBE, CHR 0xD0, CHR 0xB2,
        CHR 0xD0, CHR 0xB0, CHR 0xD0, CHR 0xBD, CHR 0xD0, CHR 0xB8, CHR 0xD0, CHR 0xB5]])
     ]"

definition suitable_types_of :: "task \<Rightarrow> string list" where
  "suitable_types_of t =
     map fst (filter (\<lambda>(resource_type, keywords).
                        list_ex (\<lambda>keyword. py_in keyword (py_lower (title t))) keywords)
                     type_matching)"

text \<open>The dictionary \<open>resources_by_type\<close>, in the order in which the types were first met.\<close>

fun add_by_type :: "resource \<Rightarrow> (string \<times> resource list) list \<Rightarrow> (string \<times> resource list) list" where
  "add_by_type r [] = [(r_type r, [r])]"
| "add_by_type r ((ty, rs) # g) =
     (if ty = r_type r then (ty, rs @ [r]) # g else (ty, rs) # add_by_type r g)"

definition resources_by_type_of :: "resource list \<Rightarrow> (string \<times> resource list) list" where
  "resources_by_type_of resources = foldl (\<lambda>g r. add_by_type r g) [] resources"

definition resources_to_try_of ::
  "resource list \<Rightarrow> (string \<times> resource list) list \<Rightarrow> string list \<Rightarrow> resource list" where
  "resources_to_try_of resources resources_by_type suitable_types =
     (if suitable_types \<noteq> [] then
        concat (map (\<lambda>resource_type. case map_of resources_by_type resource_type of
                                         None \<Rightarrow> [] | Some rs \<Rightarrow> rs) suitable_types)
      else resources)"

fun special_walk ::
  "task \<Rightarrow> string list \<Rightarrow> resource list \<Rightarrow> rat \<Rightarrow> loop_state \<Rightarrow> rat \<times> loop_state" where
  "special_walk t suitable_types [] remaining_need s = (remaining_need, s)"
| "special_walk t suitable_types (r # rs) remaining_need s =
     (if remaining_need \<le> 0 then (remaining_need, s)
      else if 0 < resource_hours s (r_id r) then
        (let hours_to_allocate = min remaining_need (resource_hours s (r_id r));
             s1 = add_total hours_to_allocate
                    (add_load r hours_to_allocate (commit r t hours_to_allocate s));
             s2 = (if r_type r \<in> set suitable_types
                   then s1\<lparr>type_matches := type_matches s1 + 1\<rparr> else s1)
         in special_walk t suitable_types rs (remaining_need - hours_to_allocate) s2)
      else special_walk t suitable_types rs remaining_need s)"

text \<open>
  The second sweep, over the resources that were not tried. The source compares the
  resource objects themselves; the model compares the records, which is the same as
  long as no two resources have the same id.
\<close>

fun special_rest :: "task \<Rightarrow> resource list \<Rightarrow> resource list \<Rightarrow> rat \<Rightarrow> loop_state \<Rightarrow> loop_state" where
  "special_rest t resources_to_try [] remaining_need s = s"
| "special_rest t resources_to_try (r # rs) remaining_need s =
     (if remaining_need \<le> 0 then s
      else if 0 < resource_hours s (r_id r) \<and> r \<notin> set resources_to_try then
        (let hours_to_allocate = min remaining_need (resource_hours s (r_id r))
         in special_rest t resources_to_try rs (remaining_need - hours_to_allocate)
              (add_total hours_to_allocate
                 (add_load r hours_to_allocate (commit r t hours_to_allocate s))))
      else special_rest t resources_to_try rs remaining_need s)"

definition special_task ::
  "resource list \<Rightarrow> (string \<times> resource list) list \<Rightarrow> (int \<Rightarrow> rat) \<Rightarrow> task \<Rightarrow> loop_state
   \<Rightarrow> loop_state" where
  "special_task resources resources_by_type task_requirements t s =
     (let suitable_types = suitable_types_of t;
          resources_to_try = resources_to_try_of resources resources_by_type suitable_types
      in case special_walk t suitable_types resources_to_try (task_requirements (t_id t)) s of
           (remaining_need, s') \<Rightarrow>
             if 0 < remaining_need
             then special_rest t resources_to_try resources remaining_need s'
             else s')"

fun special_tasks ::
  "resource list \<Rightarrow> (string \<times> resource list) list \<Rightarrow> (int \<Rightarrow> rat) \<Rightarrow> task list \<Rightarrow> loop_state
   \<Rightarrow> loop_state" where
  "special_tasks resources resources_by_type task_requirements [] s = s"
| "special_tasks resources resources_by_type task_requirements (t # ts) s =
     special_tasks resources resources_by_type task_requirements ts
       (special_task resources resources_by_type task_requirements t s)"

text \<open>\<open>sorted(tasks, key=lambda t: (t.priority, -t.required_hours))\<close>\<close>

definition sort_by_priority_and_size :: "task list \<Rightarrow> task list" where
  "sort_by_priority_and_size tasks = sort_key (\<lambda>t. (priority t, - required_hours t)) tasks"

definition special_loop :: "resource list \<Rightarrow> task list \<Rightarrow> loop_state" where
  "special_loop resources tasks =
     special_tasks resources (resources_by_type_of resources)
       (dict_of t_id required_hours tasks)
       (sort_by_priority_and_size tasks) (init_state resources)"

definition specialization_based_allocation ::
  "resource list \<Rightarrow> task list \<Rightarrow> py_error + alternative option" where
  "specialization_based_allocation resources tasks =
     (let resources_by_type = resources_by_type_of resources;
          s = special_loop resources tasks;
          total_required = total_required_of tasks;
          coverage = coverage_of (total_allocated s) total_required;
          type_diversity =
            length (remdups (map r_type
              (filter (\<lambda>r. list_ex (\<lambda>a. resource_id a = r_id r) (allocs s)) resources)));
          match_ratio = (if allocs s \<noteq> []
                         then of_nat (type_matches s) / of_nat (length (allocs s)) else 0);
          score = (if resources_by_type \<noteq> []
                   then coverage * 40
                        + (of_nat type_diversity / of_nat (length resources_by_type)) * 20
                   else coverage * 40)
      in Inr (Some \<lparr>explanation =
                      Specialization_text (map fst resources_by_type) coverage type_diversity
                        match_ratio,
                    score = score + match_ratio * 15,
                    allocations = allocs s\<rparr>))"

section \<open>Strategy 4: minimizing overload\<close>

text \<open>\<open>min(xs, key=...)\<close> and \<open>max(xs, key=...)\<close>: the first element with the least
  (greatest) key.\<close>

fun py_min_by :: "('a \<Rightarrow> 'k::linorder) \<Rightarrow> 'a \<Rightarrow> 'a list \<Rightarrow> 'a" where
  "py_min_by key best [] = best"
| "py_min_by key best (x # xs) = py_min_by key (if key x < key best then x else best) xs"

fun py_max_by :: "('a \<Rightarrow> 'k::linorder) \<Rightarrow> 'a \<Rightarrow> 'a list \<Rightarrow> 'a" where
  "py_max_by key best [] = best"
| "py_max_by key best (x # xs) = py_max_by key (if key best < key x then x else best) xs"

text \<open>
  The \<open>while remaining_need > 0\<close> loop of one task. It is a partial function: the
  value \<open>None\<close> stands for a loop that never ends.
\<close>

partial_function (option) overload_while ::
  "resource list \<Rightarrow> rat \<Rightarrow> task \<Rightarrow> rat \<Rightarrow> loop_state \<Rightarrow> loop_state option" where
  "overload_while resources ideal_load_per_resource t remaining_need s =
     (if 0 < remaining_need then
        (let under_cap =
               filter (\<lambda>r. 0 < resource_hours s (r_id r)
                           \<and> resource_allocated s (r_id r) < ideal_load_per_resource * (6 / 5))
                      resources;
             available_resources =
               (if under_cap = [] then filter (\<lambda>r. 0 < resource_hours s (r_id r)) resources
                else under_cap)
         in case available_resources of
              [] \<Rightarrow> Some s
            | r # rs \<Rightarrow>
                (let best_resource = py_min_by (\<lambda>r. resource_allocated s (r_id r)) r rs;
                     hours_to_allocate =
                       min remaining_need
                         (min (resource_hours s (r_id best_resource))
                              (ideal_load_per_resource * (6 / 5)
                                 - resource_allocated s (r_id best_resource)))
                 in if 0 < hours_to_allocate then
                      overload_while resources ideal_load_per_resource t
                        (remaining_need - hours_to_allocate)
                        (add_load best_resource hours_to_allocate
                           (commit best_resource t hours_to_allocate s))
                    else overload_while resources ideal_load_per_resource t remaining_need s))
      else Some s)"

declare overload_while.simps [code]

fun overload_tasks ::
  "resource list \<Rightarrow> rat \<Rightarrow> (int \<Rightarrow> rat) \<Rightarrow> task list \<Rightarrow> loop_state \<Rightarrow> loop_state option" where
  "overload_tasks resources ideal task_requirements [] s = Some s"
| "overload_tasks resources ideal task_requirements (t # ts) s =
     (case overload_while resources ideal t (task_requirements (t_id t)) s of
        None \<Rightarrow> None
      | Some s' \<Rightarrow> overload_tasks resources ideal task_requirements ts s')"

definition ideal_load_of :: "resource list \<Rightarrow> task list \<Rightarrow> rat" where
  "ideal_load_of resources tasks =
     (if resources \<noteq> [] then total_required_of tasks / of_nat (length resources) else 0)"

definition overload_loop :: "resource list \<Rightarrow> task list \<Rightarrow> loop_state option" where
  "overload_loop resources tasks =
     overload_tasks resources (ideal_load_of resources tasks)
       (dict_of t_id required_hours tasks)
       (sort_by_priority_and_size tasks) (init_state resources)"

definition overload_coverage :: "task list \<Rightarrow> loop_state \<Rightarrow> rat" where
  "overload_coverage tasks s =
     coverage_of (sum_list (map hours (allocs s))) (total_required_of tasks)"

definition overload_score :: "resource list \<Rightarrow> task list \<Rightarrow> loop_state \<Rightarrow> rat" where
  "overload_score resources tasks s =
     (let total_required = total_required_of tasks;
          penalty = sum_list (map (\<lambda>r. max 0 (resource_allocated s (r_id r) - available_hours r))
                                  resources);
          balance = (if 0 < total_required then 1 - penalty / total_required else 1)
      in overload_coverage tasks s * 40 + balance * 35)"

text \<open>
  \<open>max(resource_allocated.values())\<close>, read only after the guard on the total capacity,
  which an empty resource list does not pass.
\<close>

definition max_load :: "resource list \<Rightarrow> loop_state \<Rightarrow> rat" where
  "max_load resources s =
     (case map (\<lambda>r. resource_allocated s (r_id r)) resources of
        [] \<Rightarrow> 0
      | x # xs \<Rightarrow> fold max xs x)"

definition minimize_overload_allocation ::
  "resource list \<Rightarrow> task list \<Rightarrow> (py_error + alternative option) option" where
  "minimize_overload_allocation resources tasks =
     (if total_available_of resources = 0 then Some (Inr None)
      else
        (case overload_loop resources tasks of
           None \<Rightarrow> None
         | Some s \<Rightarrow>
             Some (Inr (Some \<lparr>explanation =
                                Overload_text (overload_coverage tasks s) (max_load resources s),
                              score = overload_score resources tasks s,
                              allocations = allocs s\<rparr>))))"

section \<open>Strategy 5: greedy allocation\<close>

partial_function (option) greedy_while ::
  "resource list \<Rightarrow> task \<Rightarrow> rat \<Rightarrow> loop_state \<Rightarrow> loop_state option" where
  "greedy_while resources t remaining_need s =
     (if 0 < remaining_need then
        (case filter (\<lambda>r. 1 / 10 < resource_hours s (r_id r)) resources of
           [] \<Rightarrow> Some s
         | r # rs \<Rightarrow>
             (let best_resource =
                    py_max_by (\<lambda>r. (resource_hours s (r_id r) / max (resource_allocated s (r_id r)) 1,
                                    resource_hours s (r_id r))) r rs;
                  hours_to_allocate = min remaining_need (resource_hours s (r_id best_resource))
              in if 1 / 10 < hours_to_allocate then
                   greedy_while resources t (remaining_need - hours_to_allocate)
                     (add_total hours_to_allocate
                        (add_load best_resource hours_to_allocate
                           (commit best_resource t hours_to_allocate s)))
                 else greedy_while resources t remaining_need s))
      else Some s)"

declare greedy_while.simps [code]

fun greedy_tasks ::
  "resource list \<Rightarrow> (int \<Rightarrow> rat) \<Rightarrow> task list \<Rightarrow> loop_state \<Rightarrow> loop_state option" where
  "greedy_tasks resources task_requirements [] s = Some s"
| "greedy_tasks resources task_requirements (t # ts) s =
     (case greedy_while resources t (task_requirements (t_id t)) s of
        None \<Rightarrow> None
      | Some s' \<Rightarrow> greedy_tasks resources task_requirements ts s')"

definition greedy_loop :: "resource list \<Rightarrow> task list \<Rightarrow> loop_state option" where
  "greedy_loop resources tasks =
     greedy_tasks resources (dict_of t_id required_hours tasks)
       (sort_by_priority_and_size tasks) (init_state resources)"

definition greedy_efficiency :: "resource list \<Rightarrow> loop_state \<Rightarrow> rat" where
  "greedy_efficiency resources s =
     (if resources \<noteq> [] then
        sum_list (map (\<lambda>r. min 1 (resource_allocated s (r_id r) / available_hours r))
                      (filter (\<lambda>r. 0 < available_hours r) resources))
          / of_nat (length resources)
      else 0)"

definition hours_of_task :: "allocation list \<Rightarrow> int \<Rightarrow> rat" where
  "hours_of_task as i = sum_list (map hours (filter (\<lambda>a. task_id a = i) as))"

definition greedy_priority_coverage ::
  "task list \<Rightarrow> task list \<Rightarrow> (int \<Rightarrow> rat) \<Rightarrow> allocation list \<Rightarrow> py_error + rat" where
  "greedy_priority_coverage sorted_tasks tasks task_requirements as =
     (if tasks \<noteq> [] then
        (case traverse
                (\<lambda>t. case py_div (task_requirements (t_id t)
                                   - (task_requirements (t_id t) - hours_of_task as (t_id t)))
                                  (task_requirements (t_id t)) of
                        Inl e \<Rightarrow> Inl e
                      | Inr q \<Rightarrow> Inr (of_int (6 - priority t) * min 1 q)) sorted_tasks of
           Inl e \<Rightarrow> Inl e
         | Inr terms \<Rightarrow> Inr (sum_list terms / of_nat (length tasks)))
      else Inr 0)"

definition greedy_optimized_allocation ::
  "resource list \<Rightarrow> task list \<Rightarrow> (py_error + alternative option) option" where
  "greedy_optimized_allocation resources tasks =
     (case greedy_loop resources tasks of
        None \<Rightarrow> None
      | Some s \<Rightarrow>
          (let coverage = coverage_of (total_allocated s) (total_required_of tasks);
               efficiency = greedy_efficiency resources s
           in case greedy_priority_coverage (sort_by_priority_and_size tasks) tasks
                     (dict_of t_id required_hours tasks) (allocs s) of
                Inl e \<Rightarrow> Some (Inl e)
              | Inr priority_coverage \<Rightarrow>
                  Some (Inr (Some \<lparr>explanation = Greedy_text coverage efficiency,
                                   score = coverage * 50 + efficiency * 25 + priority_coverage * 15,
                                   allocations = allocs s\<rparr>))))"

section \<open>Removing duplicates\<close>

text \<open>
  \<open>tuple(sorted((a["resource_id"], a["task_id"], round(a["hours"], 1)) for a in ...))\<close>:
  tuples are compared lexicographically.
\<close>

definition allocations_key :: "alternative \<Rightarrow> (int \<times> int \<times> rat) list" where
  "allocations_key alt =
     sort (map (\<lambda>a. (resource_id a, task_id a, py_round1 (hours a))) (allocations alt))"

text \<open>The \<open>for i, existing_alt in enumerate(unique_alternatives)\<close> loop with its \<open>break\<close>.\<close>

fun replace_better :: "alternative \<Rightarrow> alternative list \<Rightarrow> alternative list" where
  "replace_better alt [] = []"
| "replace_better alt (existing_alt # rest) =
     (if allocations_key existing_alt = allocations_key alt \<and> score existing_alt < score alt
      then alt # rest
      else existing_alt # replace_better alt rest)"

fun remove_duplicates_loop ::
  "alternative list \<Rightarrow> (int \<times> int \<times> rat) list set \<Rightarrow> alternative list \<Rightarrow> alternative list" where
  "remove_duplicates_loop [] seen unique_alternatives = unique_alternatives"
| "remove_duplicates_loop (alt # alts) seen unique_alternatives =
     (if allocations_key alt \<notin> seen
      then remove_duplicates_loop alts (insert (allocations_key alt) seen)
             (unique_alternatives @ [alt])
      else remove_duplicates_loop alts seen (replace_better alt unique_alternatives))"

definition remove_duplicates :: "alternative list \<Rightarrow> alternative list" where
  "remove_duplicates alternatives = remove_duplicates_loop alternatives {} []"

section \<open>Normalization\<close>

text \<open>
  The dictionary \<open>grouped\<close> keeps its keys in the order of their first insertion:
  \<open>if key not in grouped: grouped[key] = 0.0\<close>, then \<open>grouped[key] += alloc["hours"]\<close>.
\<close>

fun add_grouped :: "int \<times> int \<Rightarrow> rat \<Rightarrow> ((int \<times> int) \<times> rat) list \<Rightarrow> ((int \<times> int) \<times> rat) list" where
  "add_grouped key h [] = [(key, 0 + h)]"
| "add_grouped key h ((k, v) # g) =
     (if k = key then (k, v + h) # g else (k, v) # add_grouped key h g)"

definition grouped_of :: "allocation list \<Rightarrow> ((int \<times> int) \<times> rat) list" where
  "grouped_of as = foldl (\<lambda>g a. add_grouped (resource_id a, task_id a) (hours a) g) [] as"

definition normalized_allocations_of :: "allocation list \<Rightarrow> allocation list" where
  "normalized_allocations_of as =
     map (\<lambda>((resource_id, task_id), hours).
            \<lparr>resource_id = resource_id, task_id = task_id, hours = py_round1 hours\<rparr>)
         (filter (\<lambda>(key, hours). 1 / 2 \<le> hours) (grouped_of as))"

fun normalize_allocations :: "alternative list \<Rightarrow> alternative list" where
  "normalize_allocations [] = []"
| "normalize_allocations (alt # alts) =
     (let normalized_allocations = normalized_allocations_of (allocations alt)
      in if normalized_allocations \<noteq> []
         then \<lparr>explanation = explanation alt, score = score alt,
               allocations = normalized_allocations\<rparr> # normalize_allocations alts
         else normalize_allocations alts)"

section \<open>The orchestrator\<close>

text \<open>One strategy after the other: an exception or a loop that never ends stops the run.\<close>

definition and_then ::
  "(py_error + 'a) option \<Rightarrow> ('a \<Rightarrow> (py_error + 'b) option) \<Rightarrow> (py_error + 'b) option" where
  "and_then m f = (case m of None \<Rightarrow> None | Some (Inl e) \<Rightarrow> Some (Inl e) | Some (Inr x) \<Rightarrow> f x)"

text \<open>\<open>if alt: alternatives.append(alt)\<close>\<close>

definition append_if :: "alternative list \<Rightarrow> alternative option \<Rightarrow> alternative list" where
  "append_if alternatives alt = (case alt of None \<Rightarrow> alternatives | Some a \<Rightarrow> alternatives @ [a])"

definition collect_alternatives ::
  "resource list \<Rightarrow> task list \<Rightarrow> (py_error + alternative list) option" where
  "collect_alternatives resources tasks =
     and_then (Some (priority_based_allocation resources tasks)) (\<lambda>alt1.
     and_then (Some (balanced_allocation resources tasks)) (\<lambda>alt2.
     and_then (Some (specialization_based_allocation resources tasks)) (\<lambda>alt3.
     and_then (minimize_overload_allocation resources tasks) (\<lambda>alt4.
     and_then (greedy_optimized_allocation resources tasks) (\<lambda>alt5.
       Some (Inr (append_if (append_if (append_if (append_if (append_if [] alt1) alt2) alt3)
                    alt4) alt5)))))))"

text \<open>
  \<open>alternatives.sort(key=lambda x: x["score"], reverse=True)\<close>: a stable sort by
  descending score.
\<close>

definition sort_by_score :: "alternative list \<Rightarrow> alternative list" where
  "sort_by_score alternatives = sort_key (\<lambda>x. - score x) alternatives"

definition generate_alternatives ::
  "resource list \<Rightarrow> task list \<Rightarrow> (py_error + alternative list) option" where
  "generate_alternatives resources tasks =
     (if resources = [] \<or> tasks = [] then Some (Inr [])
      else and_then (collect_alternatives resources tasks) (\<lambda>alternatives.
             Some (Inr (sort_by_score (normalize_allocations (remove_duplicates alternatives))))))"

section \<open>Reference definitions of normalization\<close>

text \<open>The key under which normalization groups an allocation.\<close>

definition alloc_pair :: "allocation \<Rightarrow> int \<times> int" where
  "alloc_pair a = (resource_id a, task_id a)"

text \<open>
  The keys of a list of allocations in the order of their first occurrence, and the sum
  of the hours recorded under one key.
\<close>

definition first_keys :: "allocation list \<Rightarrow> (int \<times> int) list" where
  "first_keys as = rev (remdups (rev (map alloc_pair as)))"

definition summed_hours :: "allocation list \<Rightarrow> int \<times> int \<Rightarrow> rat" where
  "summed_hours as k = sum_list (map hours (filter (\<lambda>a. alloc_pair a = k) as))"

text \<open>
  Normalization as the specification words it: group and sum, round each sum to one
  decimal, then drop the rounded entries below 0.5; an alternative left without entries
  is dropped.
\<close>

definition claimed_normalized_allocations :: "allocation list \<Rightarrow> allocation list" where
  "claimed_normalized_allocations as =
     filter (\<lambda>a. \<not> hours a < 1 / 2)
       (map (\<lambda>k. \<lparr>resource_id = fst k, task_id = snd k, hours = py_round1 (summed_hours as k)\<rparr>)
            (first_keys as))"

definition claimed_normalize :: "alternative list \<Rightarrow> alternative list" where
  "claimed_normalize alternatives =
     filter (\<lambda>alt. allocations alt \<noteq> [])
       (map (\<lambda>alt. alt\<lparr>allocations := claimed_normalized_allocations (allocations alt)\<rparr>)
            alternatives)"

text \<open>
  The same with the threshold applied to the sum before it is rounded.
\<close>

definition reference_normalized_allocations :: "allocation list \<Rightarrow> allocation list" where
  "reference_normalized_allocations as =
     map (\<lambda>k. \<lparr>resource_id = fst k, task_id = snd k, hours = py_round1 (summed_hours as k)\<rparr>)
         (filter (\<lambda>k. \<not> summed_hours as k < 1 / 2) (first_keys as))"

definition reference_normalize :: "alternative list \<Rightarrow> alternative list" where
  "reference_normalize alternatives =
     filter (\<lambda>alt. allocations alt \<noteq> [])
       (map (\<lambda>alt. alt\<lparr>allocations := reference_normalized_allocations (allocations alt)\<rparr>)
            alternatives)"

section \<open>Reference definitions of deduplication\<close>

text \<open>
  The keys of an alternative's allocations, each (resource, task, hours rounded to one
  decimal), once as a multiset (a repeated key counts as often as it occurs) and once as
  a set.
\<close>

definition key_multiset :: "alternative \<Rightarrow> (int \<times> int \<times> rat) multiset" where
  "key_multiset alt =
     mset (map (\<lambda>a. (resource_id a, task_id a, py_round1 (hours a))) (allocations alt))"

definition key_set :: "alternative \<Rightarrow> (int \<times> int \<times> rat) set" where
  "key_set alt =
     set (map (\<lambda>a. (resource_id a, task_id a, py_round1 (hours a))) (allocations alt))"

text \<open>What the loop of remove_duplicates has established after the alternatives \<open>past\<close>.\<close>

definition dedup_inv ::
  "alternative list \<Rightarrow> (int \<times> int \<times> rat) list set \<Rightarrow> alternative list \<Rightarrow> bool" where
  "dedup_inv past seen unique \<longleftrightarrow>
     seen = allocations_key ` set past
     \<and> distinct (map allocations_key unique)
     \<and> allocations_key ` set unique = seen
     \<and> (\<forall>b \<in> set unique.
           find (\<lambda>a. allocations_key a = allocations_key b \<and> score a = score b) past = Some b
           \<and> (\<forall>a \<in> set past. allocations_key a = allocations_key b \<longrightarrow> score a \<le> score b))"


section \<open>States in which a while loop repeats itself\<close>

text \<open>
  The overload-minimizing loop with an outstanding need, no resource with spare hours
  under the load cap and some resource with spare hours; the greedy loop with an
  outstanding need of at most 0.1 hours and some resource above the threshold.
\<close>

definition overload_stuck :: "resource list \<Rightarrow> rat \<Rightarrow> rat \<Rightarrow> loop_state \<Rightarrow> bool" where
  "overload_stuck resources ideal remaining_need s \<longleftrightarrow>
     0 < remaining_need
     \<and> filter (\<lambda>r. 0 < resource_hours s (r_id r)
                  \<and> resource_allocated s (r_id r) < ideal * (6 / 5)) resources = []
     \<and> filter (\<lambda>r. 0 < resource_hours s (r_id r)) resources \<noteq> []"

definition greedy_stuck :: "resource list \<Rightarrow> rat \<Rightarrow> loop_state \<Rightarrow> bool" where
  "greedy_stuck resources remaining_need s \<longleftrightarrow>
     0 < remaining_need \<and> remaining_need \<le> 1 / 10
     \<and> filter (\<lambda>r. 1 / 10 < resource_hours s (r_id r)) resources \<noteq> []"

section \<open>Invariants of the allocation loops\<close>

text \<open>
  Two invariants that rest on comparisons only. For a run that started with the
  capacities \<open>H\<close>: the remaining capacity of every resource stays between 0 and its initial
  value, and every allocation made so far has positive hours, at most the initial
  capacity of its resource. For the requirements \<open>R\<close>: every allocation made so far has
  at most the hours that its task requires.
\<close>

definition counter_inv :: "(int \<Rightarrow> rat) \<Rightarrow> loop_state \<Rightarrow> bool" where
  "counter_inv H s \<longleftrightarrow>
     (\<forall>i. 0 \<le> resource_hours s i \<and> resource_hours s i \<le> H i)
     \<and> (\<forall>a \<in> set (allocs s). 0 < hours a \<and> hours a \<le> H (resource_id a))"

definition need_inv :: "(int \<Rightarrow> rat) \<Rightarrow> loop_state \<Rightarrow> bool" where
  "need_inv R s \<longleftrightarrow> (\<forall>a \<in> set (allocs s). hours a \<le> R (task_id a))"


section \<open>Concrete inputs\<close>

definition scenario_resources :: "resource list" where
  "scenario_resources =
     [\<lparr>r_id = 1, r_name = ''R1'', r_type = ''developer'', available_hours = 10\<rparr>,
      \<lparr>r_id = 2, r_name = ''R2'', r_type = ''designer'', available_hours = 5\<rparr>]"

definition scenario_tasks :: "task list" where
  "scenario_tasks =
     [\<lparr>t_id = 1, title = ''Develop feature'', required_hours = 8, priority = 1\<rparr>,
      \<lparr>t_id = 2, title = ''Design UI'', required_hours = 4, priority = 2\<rparr>]"

definition small_resources :: "resource list" where
  "small_resources = [\<lparr>r_id = 1, r_name = ''R1'', r_type = ''dev'', available_hours = 10\<rparr>]"

definition small_tasks :: "task list" where
  "small_tasks = [\<lparr>t_id = 1, title = ''T1'', required_hours = 5, priority = 1\<rparr>]"

definition small_output :: "alternative list" where
  "small_output =
     [\<lparr>explanation = Priority_text 1 (Some 1), score = 150,
        allocations = [\<lparr>resource_id = 1, task_id = 1, hours = 5\<rparr>]\<rparr>,
      \<lparr>explanation = Balanced_text 2, score = 120,
        allocations = [\<lparr>resource_id = 1, task_id = 1, hours = 10\<rparr>]\<rparr>]"

definition dust_alternative :: alternative where
  "dust_alternative =
     \<lparr>explanation = Priority_text 1 (Some 1), score = 150,
      allocations = [\<lparr>resource_id = 1, task_id = 1, hours = 15 / 32\<rparr>]\<rparr>"

definition twice_alternative :: alternative where
  "twice_alternative =
     \<lparr>explanation = Priority_text 1 (Some 1), score = 1,
      allocations = [\<lparr>resource_id = 1, task_id = 1, hours = 2\<rparr>,
                     \<lparr>resource_id = 1, task_id = 1, hours = 2\<rparr>]\<rparr>"

definition once_alternative :: alternative where
  "once_alternative =
     \<lparr>explanation = Balanced_text 1, score = 2,
      allocations = [\<lparr>resource_id = 1, task_id = 1, hours = 2\<rparr>]\<rparr>"

definition stuck_resources :: "resource list" where
  "stuck_resources =
     [\<lparr>r_id = 1, r_name = ''R1'', r_type = ''dev'', available_hours = 100\<rparr>,
      \<lparr>r_id = 2, r_name = ''R2'', r_type = ''dev'', available_hours = 1\<rparr>]"

definition stuck_tasks :: "task list" where
  "stuck_tasks = [\<lparr>t_id = 1, title = ''T1'', required_hours = 10, priority = 1\<rparr>]"

definition tiny_tasks :: "task list" where
  "tiny_tasks = [\<lparr>t_id = 1, title = ''T1'', required_hours = 1 / 20, priority = 1\<rparr>]"








definition scenario_allocations :: "allocation list" where
  "scenario_allocations =
     [\<lparr>resource_id = 1, task_id = 1, hours = 8\<rparr>,
      \<lparr>resource_id = 1, task_id = 2, hours = 2\<rparr>,
      \<lparr>resource_id = 2, task_id = 2, hours = 2\<rparr>]"

section \<open>The concrete scenario of the priority strategy\<close>

lemma scenario_loop:
  "allocs (priority_loop scenario_resources scenario_tasks) = scenario_allocations
   \<and> total_allocated (priority_loop scenario_resources scenario_tasks) = 12"
  by (simp add: priority_loop_def scenario_resources_def scenario_tasks_def
      scenario_allocations_def init_state_def dict_of_def commit_def add_total_def)

lemma scenario_sorted: "sort_key priority scenario_tasks = scenario_tasks"
  by (simp add: scenario_tasks_def)

lemma scenario_total: "total_required_of scenario_tasks = 12"
  by (simp add: total_required_of_def scenario_tasks_def)

lemma scenario_bonus:
  "priority_bonus scenario_tasks scenario_tasks scenario_allocations = Inr (9 / 2)"
  by (simp add: priority_bonus_def scenario_tasks_def scenario_allocations_def
      hours_by_task_def py_div_def)

lemma scenario_penalty: "overload_penalty scenario_resources scenario_allocations 12 = 0"
  by (simp add: overload_penalty_def scenario_resources_def scenario_allocations_def
      hours_of_resource_def)

text \<open>
  Claim C8. With resources R1 (developer, 10 h) and R2 (designer, 5 h) and tasks T1
  ("Develop feature", 8 h, priority 1) and T2 ("Design UI", 4 h, priority 2), the
  priority strategy returns the allocations (R1,T1,8), (R1,T2,2), (R2,T2,2); its coverage
  is 1, its priority bonus 4.5, its overload penalty 0 and its score 140.
\<close>

theorem priority_scenario:
  "priority_based_allocation scenario_resources scenario_tasks =
     Inr (Some \<lparr>explanation = Priority_text 1 (Some 1), score = 140,
                allocations = scenario_allocations\<rparr>)
   \<and> coverage_of (total_allocated (priority_loop scenario_resources scenario_tasks))
        (total_required_of scenario_tasks) = 1
   \<and> priority_bonus (sort_key priority scenario_tasks) scenario_tasks
        (allocs (priority_loop scenario_resources scenario_tasks)) = Inr (9 / 2)
   \<and> overload_penalty scenario_resources
        (allocs (priority_loop scenario_resources scenario_tasks))
        (total_required_of scenario_tasks) = 0
   \<and> priority_score 1 (9 / 2) 0 = 140"
  using scenario_loop scenario_sorted scenario_total scenario_bonus scenario_penalty
  by (simp add: priority_based_allocation_def coverage_of_def priority_score_def Let_def)
    (simp add: scenario_tasks_def)

section \<open>The orchestrator on empty input\<close>

text \<open>
  Claim C9. \<open>generate_alternatives\<close> returns the empty list, and raises nothing, when
  both lists are empty, when the task list is empty (whatever the resources), and when
  the resource list is empty (whatever the tasks).
\<close>

theorem empty_input_law:
  "generate_alternatives [] [] = Some (Inr [])
   \<and> generate_alternatives resources [] = Some (Inr [])
   \<and> generate_alternatives [] tasks = Some (Inr [])"
  by (simp add: generate_alternatives_def)

section \<open>The order of the result\<close>

lemma sorted_desc_sort_by_score:
  "sorted_wrt (\<lambda>a b. score b \<le> score a) (sort_by_score xs)"
proof -
  have "sorted (map (\<lambda>x. - score x) (sort_by_score xs))"
    unfolding sort_by_score_def by (rule sorted_sort_key)
  then show ?thesis
    by (simp add: sorted_map sorted_wrt_iff_nth_less)
qed

lemma stable_sort_by_score:
  "filter (\<lambda>a. score a = v) (sort_by_score xs) = filter (\<lambda>a. score a = v) xs"
proof -
  have "filter (\<lambda>a. - score a = - v) (sort_key (\<lambda>x. - score x) xs)
        = filter (\<lambda>a. - score a = - v) xs"
    by (rule sort_key_stable)
  then show ?thesis by (simp add: sort_by_score_def)
qed

lemma mset_sort_by_score: "mset (sort_by_score xs) = mset xs"
  by (simp add: sort_by_score_def)

lemma generate_alternatives_cases:
  assumes "generate_alternatives resources tasks = Some (Inr out)"
  obtains "resources = [] \<or> tasks = []" and "out = []"
  | alts where "resources \<noteq> []" and "tasks \<noteq> []"
      and "collect_alternatives resources tasks = Some (Inr alts)"
      and "out = sort_by_score (normalize_allocations (remove_duplicates alts))"
  using assms
  by (auto simp: generate_alternatives_def and_then_def
      split: if_splits option.splits sum.splits)

lemma small_generate:
  "generate_alternatives small_resources small_tasks = Some (Inr small_output)"
  by code_simp

text \<open>
  Claim C10. Whenever \<open>generate_alternatives\<close> returns a list, the list is sorted by
  descending score: each element's score is at least the score of the next one. The
  list is a rearrangement of the one that deduplication and normalization produced, and
  alternatives of equal score keep the relative order they had there.
\<close>

theorem generate_sorted_by_score:
  assumes "generate_alternatives resources tasks = Some (Inr out)"
  shows "(\<forall>i. Suc i < length out \<longrightarrow> score (out ! Suc i) \<le> score (out ! i))
    \<and> (\<exists>before.
          (if resources = [] \<or> tasks = [] then before = []
           else \<exists>alts. collect_alternatives resources tasks = Some (Inr alts)
                  \<and> before = normalize_allocations (remove_duplicates alts))
          \<and> mset out = mset before
          \<and> (\<forall>v. filter (\<lambda>a. score a = v) out = filter (\<lambda>a. score a = v) before))"
  using assms
proof (cases rule: generate_alternatives_cases)
  case 1
  then show ?thesis by auto
next
  case (2 alts)
  let ?before = "normalize_allocations (remove_duplicates alts)"
  have "sorted_wrt (\<lambda>a b. score b \<le> score a) out"
    using 2 by (simp add: sorted_desc_sort_by_score)
  then have "\<forall>i. Suc i < length out \<longrightarrow> score (out ! Suc i) \<le> score (out ! i)"
    by (simp add: sorted_wrt_iff_nth_less)
  moreover have "mset out = mset ?before"
    using 2 by (simp add: mset_sort_by_score)
  moreover have "\<forall>v. filter (\<lambda>a. score a = v) out = filter (\<lambda>a. score a = v) ?before"
    using 2 by (simp add: stable_sort_by_score)
  ultimately show ?thesis using 2 by auto
qed

theorem generate_sorted_by_score_witness:
  "generate_alternatives small_resources small_tasks = Some (Inr small_output)
   \<and> score (small_output ! Suc 0) \<le> score (small_output ! 0)
   \<and> score (small_output ! 0) = 150 \<and> score (small_output ! Suc 0) = 120"
  using generate_sorted_by_score [OF small_generate] small_generate
  by (simp add: small_output_def)

section \<open>Properties of normalization\<close>

lemma py_round1_tenth: "py_round1 (of_int n / 10) = of_int n / 10"
  by (simp add: py_round1_def Let_def)

lemma py_round1_is_tenth: "\<exists>n. py_round1 x = of_int n / 10"
  unfolding py_round1_def Let_def by blast

lemma py_round1_idem: "py_round1 (py_round1 x) = py_round1 x"
proof -
  obtain n where "py_round1 x = of_int n / 10" using py_round1_is_tenth by blast
  then show ?thesis using py_round1_tenth [of n] by metis
qed

lemma py_round1_ge_floor: "of_int \<lfloor>x * 10\<rfloor> / 10 \<le> py_round1 x"
  by (simp add: py_round1_def Let_def divide_le_cancel)

lemma py_round1_half: assumes "1 / 2 \<le> x" shows "1 / 2 \<le> py_round1 x"
proof -
  have "(5::rat) \<le> x * 10" using assms by simp
  then have "5 \<le> \<lfloor>x * 10\<rfloor>" by (simp add: le_floor_iff)
  then have "(5::rat) \<le> of_int \<lfloor>x * 10\<rfloor>" by linarith
  then have "(1::rat) / 2 \<le> of_int \<lfloor>x * 10\<rfloor> / 10" by simp
  then show ?thesis using py_round1_ge_floor [of x] by linarith
qed

lemma py_round1_half2: "1 \<le> x * 2 \<Longrightarrow> 1 \<le> py_round1 x * 2"
  using py_round1_half [of x] by simp

lemma add_grouped_fresh:
  "key \<notin> fst ` set g \<Longrightarrow> add_grouped key h g = g @ [(key, h)]"
  by (induction g) auto

lemma add_grouped_keys:
  "map fst (add_grouped key h g) = (if key \<in> fst ` set g then map fst g else map fst g @ [key])"
  by (induction g) force+

lemma grouped_of_snoc:
  "grouped_of (as @ [a]) = add_grouped (resource_id a, task_id a) (hours a) (grouped_of as)"
  by (simp add: grouped_of_def)

lemma distinct_grouped_of: "distinct (map fst (grouped_of as))"
proof (induction as rule: rev_induct)
  case Nil
  then show ?case by (simp add: grouped_of_def)
next
  case (snoc a as)
  then show ?case by (auto simp: grouped_of_snoc add_grouped_keys)
qed

lemma grouped_of_distinct:
  assumes "distinct (map alloc_pair as)"
  shows "grouped_of as = map (\<lambda>a. (alloc_pair a, hours a)) as"
  using assms
proof (induction as rule: rev_induct)
  case Nil
  then show ?case by (simp add: grouped_of_def)
next
  case (snoc a as)
  then have ih: "grouped_of as = map (\<lambda>a. (alloc_pair a, hours a)) as" by simp
  have "alloc_pair a \<notin> fst ` set (grouped_of as)"
    using snoc.prems by (auto simp: ih)
  then show ?case
    using ih by (simp add: grouped_of_snoc add_grouped_fresh alloc_pair_def)
qed

lemma normalized_allocations_idem:
  "normalized_allocations_of (normalized_allocations_of as) = normalized_allocations_of as"
proof -
  define P where "P = (\<lambda>(key :: int \<times> int, hours :: rat). 1 / 2 \<le> hours)"
  define mk where "mk = (\<lambda>((resource_id, task_id), hours).
     \<lparr>resource_id = resource_id, task_id = task_id, hours = py_round1 hours\<rparr>)"
  define R where "R = (\<lambda>(k :: int \<times> int, h). (k, py_round1 h))"
  have nd: "normalized_allocations_of xs = map mk (filter P (grouped_of xs))" for xs
    unfolding P_def mk_def normalized_allocations_of_def ..
  let ?g = "filter P (grouped_of as)"
  have d: "distinct (map fst ?g)"
    by (rule distinct_map_filter) (rule distinct_grouped_of)
  have keys: "map alloc_pair (map mk ?g) = map fst ?g"
    by (auto simp: mk_def alloc_pair_def)
  have "grouped_of (map mk ?g) = map (\<lambda>a. (alloc_pair a, hours a)) (map mk ?g)"
    by (rule grouped_of_distinct) (simp only: keys d)
  also have "\<dots> = map R ?g"
    by (auto simp: mk_def R_def alloc_pair_def)
  finally have g: "grouped_of (map mk ?g) = map R ?g" .
  have f: "filter P (map R ?g) = map R ?g"
    by (rule filter_True) (auto simp: P_def R_def py_round1_half2)
  have mR: "map mk (map R ?g) = map mk ?g"
    by (auto simp: mk_def R_def py_round1_idem)
  show ?thesis
    by (simp only: nd g f mR)
qed

text \<open>
  Claim C7. Normalization is idempotent: normalizing a normalized list of alternatives
  changes nothing.
\<close>

theorem normalize_allocations_idempotent:
  "normalize_allocations (normalize_allocations alternatives) = normalize_allocations alternatives"
  by (induction alternatives) (simp_all add: Let_def normalized_allocations_idem)

lemma first_keys_snoc:
  "first_keys (as @ [a]) =
     (if alloc_pair a \<in> set (first_keys as) then first_keys as
      else first_keys as @ [alloc_pair a])"
  by (simp add: first_keys_def)

lemma set_first_keys: "set (first_keys as) = alloc_pair ` set as"
  by (simp add: first_keys_def)

lemma distinct_first_keys: "distinct (first_keys as)"
  by (simp add: first_keys_def)

lemma summed_hours_snoc:
  "summed_hours (as @ [a]) k = summed_hours as k + (if alloc_pair a = k then hours a else 0)"
  by (simp add: summed_hours_def)

lemma summed_hours_fresh: "k \<notin> alloc_pair ` set as \<Longrightarrow> summed_hours as k = 0"
proof -
  assume "k \<notin> alloc_pair ` set as"
  then have "filter (\<lambda>a. alloc_pair a = k) as = []"
    by (auto simp: filter_empty_conv)
  then show ?thesis by (simp add: summed_hours_def)
qed

lemma add_grouped_present:
  assumes "distinct K" and "key \<in> set K"
  shows "add_grouped key h (map (\<lambda>k. (k, f k)) K)
         = map (\<lambda>k. (k, f k + (if key = k then h else 0))) K"
  using assms
proof (induction K)
  case Nil
  then show ?case by simp
next
  case (Cons k K)
  show ?case
  proof (cases "k = key")
    case True
    then have "key \<notin> set K" using Cons.prems by auto
    then have "map (\<lambda>k. (k, f k + (if key = k then h else 0))) K = map (\<lambda>k. (k, f k)) K"
      by (intro map_cong) auto
    then show ?thesis using True by simp
  next
    case False
    then show ?thesis using Cons by auto
  qed
qed

lemma grouped_of_summed:
  "grouped_of as = map (\<lambda>k. (k, summed_hours as k)) (first_keys as)"
proof (induction as rule: rev_induct)
  case Nil
  then show ?case by (simp add: grouped_of_def first_keys_def)
next
  case (snoc a as)
  let ?key = "alloc_pair a"
  have step: "grouped_of (as @ [a]) = add_grouped ?key (hours a) (grouped_of as)"
    by (simp add: grouped_of_snoc alloc_pair_def)
  show ?case
  proof (cases "?key \<in> set (first_keys as)")
    case True
    have "add_grouped ?key (hours a) (map (\<lambda>k. (k, summed_hours as k)) (first_keys as))
          = map (\<lambda>k. (k, summed_hours as k + (if ?key = k then hours a else 0))) (first_keys as)"
      by (rule add_grouped_present) (use True distinct_first_keys in auto)
    then show ?thesis
      using True by (simp add: step snoc.IH first_keys_snoc summed_hours_snoc)
  next
    case False
    then have fresh: "?key \<notin> fst ` set (grouped_of as)"
      by (simp add: snoc.IH image_image)
    have zero: "summed_hours as ?key = 0"
      using False by (simp add: summed_hours_fresh set_first_keys)
    have others: "map (\<lambda>k. (k, summed_hours (as @ [a]) k)) (first_keys as)
                  = map (\<lambda>k. (k, summed_hours as k)) (first_keys as)"
      using False by (intro map_cong) (auto simp: summed_hours_snoc)
    show ?thesis
      using False fresh zero others
      by (simp add: step add_grouped_fresh first_keys_snoc summed_hours_snoc snoc.IH)
  qed
qed

lemma normalized_allocations_of_summed:
  "normalized_allocations_of as = reference_normalized_allocations as"
  unfolding normalized_allocations_of_def reference_normalized_allocations_def grouped_of_summed
  by (simp add: filter_map comp_def not_less)

text \<open>
  Claim C6, as amended. Normalization of a list of alternatives is the reference
  definition: per alternative, the allocations are grouped by (resource, task) in the
  order of first occurrence and their hours summed; a group whose sum, before rounding,
  is below 0.5 is dropped; the remaining sums are rounded to one decimal; an alternative
  left without entries is dropped.
\<close>

theorem normalize_allocations_reference:
  "normalize_allocations alternatives = reference_normalize alternatives"
  by (induction alternatives)
    (simp_all add: reference_normalize_def Let_def normalized_allocations_of_summed)

lemma py_round1_dust: "py_round1 (15 / 32) = 1 / 2"
  by code_simp

text \<open>
  Claim C6 as stated fails: an alternative whose only allocation has 0.46875 hours is
  dropped by the code, while the rounded value 0.5 passes the threshold of the wording.
\<close>

theorem normalize_claimed_counterexample:
  "normalize_allocations [dust_alternative] = []
   \<and> claimed_normalize [dust_alternative] =
       [\<lparr>explanation = Priority_text 1 (Some 1), score = 150,
         allocations = [\<lparr>resource_id = 1, task_id = 1, hours = 1 / 2\<rparr>]\<rparr>]
   \<and> normalize_allocations [dust_alternative] \<noteq> claimed_normalize [dust_alternative]"
  by (simp add: dust_alternative_def normalized_allocations_of_def grouped_of_def
      claimed_normalize_def claimed_normalized_allocations_def first_keys_def
      summed_hours_def alloc_pair_def py_round1_dust)

section \<open>Properties of deduplication\<close>

lemma allocations_key_eq_iff:
  "allocations_key a = allocations_key b \<longleftrightarrow> key_multiset a = key_multiset b"
proof
  assume "allocations_key a = allocations_key b"
  then have "mset (allocations_key a) = mset (allocations_key b)" by simp
  then show "key_multiset a = key_multiset b"
    by (simp add: allocations_key_def key_multiset_def)
next
  assume "key_multiset a = key_multiset b"
  then show "allocations_key a = allocations_key b"
    unfolding allocations_key_def key_multiset_def
    by (intro properties_for_sort) simp_all
qed

lemma replace_better_map:
  "distinct (map allocations_key U) \<Longrightarrow>
   replace_better alt U =
     map (\<lambda>e. if allocations_key e = allocations_key alt \<and> score e < score alt then alt else e) U"
proof (induction U)
  case Nil
  then show ?case by simp
next
  case (Cons e U)
  show ?case
  proof (cases "allocations_key e = allocations_key alt \<and> score e < score alt")
    case True
    then have "allocations_key alt \<notin> allocations_key ` set U" using Cons.prems by auto
    then have "map (\<lambda>e. if allocations_key e = allocations_key alt \<and> score e < score alt
                          then alt else e) U = U"
      by (intro map_idI) (auto simp: image_iff)
    then show ?thesis using True by simp
  next
    case False
    then show ?thesis using Cons by auto
  qed
qed

lemma find_snoc:
  "find P (xs @ [x]) = (case find P xs of Some y \<Rightarrow> Some y | None \<Rightarrow> if P x then Some x else None)"
  by (induction xs) auto

lemma find_None_iff2: "find P xs = None \<longleftrightarrow> (\<forall>x \<in> set xs. \<not> P x)"
  by (induction xs) auto

lemma find_SomeD: "find P xs = Some x \<Longrightarrow> x \<in> set xs \<and> P x"
  by (induction xs) (auto split: if_splits)

lemma dedup_inv_fresh:
  assumes "dedup_inv past seen unique" and "allocations_key alt \<notin> seen"
  shows "dedup_inv (past @ [alt]) (insert (allocations_key alt) seen) (unique @ [alt])"
proof -
  have seen: "seen = allocations_key ` set past"
    and dist: "distinct (map allocations_key unique)"
    and img: "allocations_key ` set unique = seen"
    and best: "\<And>b. b \<in> set unique \<Longrightarrow>
       find (\<lambda>a. allocations_key a = allocations_key b \<and> score a = score b) past = Some b
       \<and> (\<forall>a \<in> set past. allocations_key a = allocations_key b \<longrightarrow> score a \<le> score b)"
    using assms(1) by (auto simp: dedup_inv_def)
  have no: "allocations_key a \<noteq> allocations_key alt" if "a \<in> set past" for a
    using that assms(2) seen by (metis imageI)
  then have "find (\<lambda>a. allocations_key a = allocations_key alt \<and> score a = score alt) past
             = None"
    by (simp add: find_None_iff2)
  then have new: "find (\<lambda>a. allocations_key a = allocations_key alt \<and> score a = score alt)
               (past @ [alt]) = Some alt
             \<and> (\<forall>a \<in> set (past @ [alt]). allocations_key a = allocations_key alt
                  \<longrightarrow> score a \<le> score alt)"
    using no by (auto simp: find_snoc)
  have old: "find (\<lambda>a. allocations_key a = allocations_key b \<and> score a = score b)
               (past @ [alt]) = Some b
             \<and> (\<forall>a \<in> set (past @ [alt]). allocations_key a = allocations_key b
                  \<longrightarrow> score a \<le> score b)" if "b \<in> set unique" for b
  proof -
    have "allocations_key b \<noteq> allocations_key alt" using that img assms(2) by (metis imageI)
    then show ?thesis using best [OF that] by (auto simp: find_snoc)
  qed
  have s': "insert (allocations_key alt) seen = allocations_key ` set (past @ [alt])"
    using seen by auto
  have d': "distinct (map allocations_key (unique @ [alt]))"
    using dist img assms(2) by auto
  have i': "allocations_key ` set (unique @ [alt]) = insert (allocations_key alt) seen"
    using img by auto
  have b': "\<forall>b \<in> set (unique @ [alt]).
      find (\<lambda>a. allocations_key a = allocations_key b \<and> score a = score b) (past @ [alt]) = Some b
      \<and> (\<forall>a \<in> set (past @ [alt]). allocations_key a = allocations_key b \<longrightarrow> score a \<le> score b)"
    using new old by (simp only: set_append Un_iff ball_Un list.set ball_simps) blast
  show ?thesis
    unfolding dedup_inv_def using s' d' i' b' by blast
qed

lemma dedup_inv_seen:
  assumes "dedup_inv past seen unique" and "allocations_key alt \<in> seen"
  shows "dedup_inv (past @ [alt]) seen (replace_better alt unique)"
proof -
  let ?k = "allocations_key alt"
  let ?f = "\<lambda>e. if allocations_key e = ?k \<and> score e < score alt then alt else e"
  have seen: "seen = allocations_key ` set past"
    and dist: "distinct (map allocations_key unique)"
    and img: "allocations_key ` set unique = seen"
    using assms(1) by (simp_all add: dedup_inv_def)
  have best: "find (\<lambda>a. allocations_key a = allocations_key b \<and> score a = score b) past = Some b"
    and top: "\<And>a. a \<in> set past \<Longrightarrow> allocations_key a = allocations_key b
                \<Longrightarrow> score a \<le> score b"
    if "b \<in> set unique" for b
    using assms(1) that by (simp_all add: dedup_inv_def)
  have rb: "replace_better alt unique = map ?f unique"
    by (rule replace_better_map) (rule dist)
  have keys: "map allocations_key (map ?f unique) = map allocations_key unique"
    by (induction unique) simp_all
  have seen': "seen = allocations_key ` set (past @ [alt])"
    using seen assms(2) by auto
  have dist': "distinct (map allocations_key (map ?f unique))"
    by (simp only: keys dist)
  have "set (map allocations_key (map ?f unique)) = set (map allocations_key unique)"
    by (simp only: keys)
  then have img': "allocations_key ` set (map ?f unique) = seen"
    using img by (simp only: set_map)
  have best': "find (\<lambda>a. allocations_key a = allocations_key c \<and> score a = score c)
                 (past @ [alt]) = Some c
               \<and> (\<forall>a \<in> set (past @ [alt]). allocations_key a = allocations_key c
                    \<longrightarrow> score a \<le> score c)" if c_in: "c \<in> set (map ?f unique)" for c
  proof -
    from c_in obtain b where b: "b \<in> set unique" and c: "c = ?f b" by auto
    note fb = best [OF b] and tb = top [OF b]
    show ?thesis
    proof (cases "allocations_key b = ?k \<and> score b < score alt")
      case True
      then have c_alt: "c = alt" using c by simp
      have less: "score a < score alt" if "a \<in> set past" "allocations_key a = ?k" for a
      proof -
        have "score a \<le> score b" using tb that True by simp
        then show ?thesis using True by simp
      qed
      have "\<forall>a \<in> set past. \<not> (allocations_key a = ?k \<and> score a = score alt)"
      proof
        fix a assume "a \<in> set past"
        then show "\<not> (allocations_key a = ?k \<and> score a = score alt)"
          using less [of a] by auto
      qed
      then have none: "find (\<lambda>a. allocations_key a = ?k \<and> score a = score alt) past = None"
        by (simp only: find_None_iff2)
      have f: "find (\<lambda>a. allocations_key a = ?k \<and> score a = score alt) (past @ [alt])
               = Some alt"
        by (simp add: find_snoc none)
      have t: "\<forall>a \<in> set (past @ [alt]). allocations_key a = ?k \<longrightarrow> score a \<le> score alt"
      proof
        fix a assume "a \<in> set (past @ [alt])"
        then have "a \<in> set past \<or> a = alt" by auto
        then show "allocations_key a = ?k \<longrightarrow> score a \<le> score alt"
          using less [of a] by auto
      qed
      show ?thesis unfolding c_alt using f t by (rule conjI)
    next
      case False
      then have c_b: "c = b" using c by auto
      have f: "find (\<lambda>a. allocations_key a = allocations_key b \<and> score a = score b)
                 (past @ [alt]) = Some b"
        by (simp add: find_snoc fb)
      have t: "\<forall>a \<in> set (past @ [alt]). allocations_key a = allocations_key b
                 \<longrightarrow> score a \<le> score b"
      proof
        fix a assume "a \<in> set (past @ [alt])"
        then have "a \<in> set past \<or> a = alt" by auto
        then show "allocations_key a = allocations_key b \<longrightarrow> score a \<le> score b"
          using tb [of a] False by auto
      qed
      show ?thesis unfolding c_b using f t by (rule conjI)
    qed
  qed
  have all: "\<forall>c \<in> set (map ?f unique).
       find (\<lambda>a. allocations_key a = allocations_key c \<and> score a = score c) (past @ [alt]) = Some c
       \<and> (\<forall>a \<in> set (past @ [alt]). allocations_key a = allocations_key c \<longrightarrow> score a \<le> score c)"
    using best' by (rule ballI)
  show ?thesis
    unfolding dedup_inv_def rb
    using seen' dist' img' all by (intro conjI)
qed

lemma distinct_map_transfer:
  assumes "distinct (map f xs)" and "\<And>x y. g x = g y \<Longrightarrow> f x = f y"
  shows "distinct (map g xs)"
  using assms(1)
proof (induction xs)
  case Nil
  then show ?case by simp
next
  case (Cons x xs)
  have "g x \<notin> g ` set xs"
  proof
    assume "g x \<in> g ` set xs"
    then obtain y where "y \<in> set xs" and "g x = g y" by auto
    then have "f x \<in> f ` set xs" using assms(2) by (metis imageI)
    then show False using Cons.prems by simp
  qed
  then show ?case using Cons by simp
qed

lemma remove_duplicates_loop_inv:
  "dedup_inv past seen unique \<Longrightarrow>
   \<exists>seen'. dedup_inv (past @ alts) seen' (remove_duplicates_loop alts seen unique)"
proof (induction alts arbitrary: past seen unique)
  case Nil
  then show ?case by auto
next
  case (Cons alt alts)
  show ?case
  proof (cases "allocations_key alt \<in> seen")
    case True
    have "dedup_inv (past @ [alt]) seen (replace_better alt unique)"
      using Cons.prems True by (rule dedup_inv_seen)
    from Cons.IH [OF this] show ?thesis using True by simp
  next
    case False
    have "dedup_inv (past @ [alt]) (insert (allocations_key alt) seen) (unique @ [alt])"
      using Cons.prems False by (rule dedup_inv_fresh)
    from Cons.IH [OF this] show ?thesis using False by simp
  qed
qed

lemma remove_duplicates_inv:
  "\<exists>seen. dedup_inv alternatives seen (remove_duplicates alternatives)"
proof -
  have "dedup_inv [] {} []" by (simp add: dedup_inv_def)
  from remove_duplicates_loop_inv [OF this, of alternatives]
  show ?thesis by (simp add: remove_duplicates_def)
qed

text \<open>
  Claim C5, as amended. Two alternatives have the same deduplication key exactly when
  the multisets of their allocation keys (resource, task, hours rounded to one decimal)
  are equal. No two alternatives of the result have the same multiset; every multiset
  of the input is that of one alternative of the result; and the alternative that
  survives is the first one of the input among those with its multiset that have the
  highest score.
\<close>

theorem remove_duplicates_keeps_best:
  "(\<forall>a b. allocations_key a = allocations_key b \<longleftrightarrow> key_multiset a = key_multiset b)
   \<and> distinct (map key_multiset (remove_duplicates alternatives))
   \<and> key_multiset ` set (remove_duplicates alternatives) = key_multiset ` set alternatives
   \<and> (\<forall>b \<in> set (remove_duplicates alternatives).
         find (\<lambda>a. key_multiset a = key_multiset b \<and> score a = score b) alternatives = Some b
         \<and> (\<forall>a \<in> set alternatives. key_multiset a = key_multiset b \<longrightarrow> score a \<le> score b))"
proof -
  obtain seen where inv: "dedup_inv alternatives seen (remove_duplicates alternatives)"
    using remove_duplicates_inv by blast
  let ?out = "remove_duplicates alternatives"
  have km: "key_multiset = (\<lambda>a. mset (allocations_key a))"
    by (auto simp: key_multiset_def allocations_key_def)
  have d: "distinct (map key_multiset ?out)"
  proof (rule distinct_map_transfer)
    show "distinct (map allocations_key ?out)" using inv by (simp add: dedup_inv_def)
    show "key_multiset x = key_multiset y \<Longrightarrow> allocations_key x = allocations_key y" for x y
      by (simp add: allocations_key_eq_iff)
  qed
  have i: "key_multiset ` set ?out = key_multiset ` set alternatives"
  proof -
    have "allocations_key ` set ?out = allocations_key ` set alternatives"
      using inv by (simp add: dedup_inv_def)
    then have "mset ` allocations_key ` set ?out = mset ` allocations_key ` set alternatives"
      by simp
    then show ?thesis by (simp add: km image_image)
  qed
  have b: "\<forall>b \<in> set ?out.
         find (\<lambda>a. key_multiset a = key_multiset b \<and> score a = score b) alternatives = Some b
         \<and> (\<forall>a \<in> set alternatives. key_multiset a = key_multiset b \<longrightarrow> score a \<le> score b)"
    using inv by (simp add: dedup_inv_def allocations_key_eq_iff)
  show ?thesis using d i b allocations_key_eq_iff by blast
qed

theorem remove_duplicates_keeps_best_witness:
  "remove_duplicates [once_alternative\<lparr>score := 1\<rparr>, twice_alternative, once_alternative,
      once_alternative\<lparr>explanation := Greedy_text 1 1\<rparr>]
   = [once_alternative, twice_alternative]
   \<and> find (\<lambda>a. key_multiset a = key_multiset once_alternative \<and> score a = score once_alternative)
       [once_alternative\<lparr>score := 1\<rparr>, twice_alternative, once_alternative,
        once_alternative\<lparr>explanation := Greedy_text 1 1\<rparr>] = Some once_alternative"
  using remove_duplicates_keeps_best [of "[once_alternative\<lparr>score := 1\<rparr>, twice_alternative,
      once_alternative, once_alternative\<lparr>explanation := Greedy_text 1 1\<rparr>]"]
  by (simp add: remove_duplicates_def once_alternative_def twice_alternative_def
      allocations_key_def)

text \<open>
  Claim C5 as stated fails: these two alternatives have the same set of allocation keys
  and different scores, and both survive, because one of them holds the key twice.
\<close>

theorem remove_duplicates_set_counterexample:
  "key_set twice_alternative = key_set once_alternative
   \<and> score twice_alternative < score once_alternative
   \<and> remove_duplicates [twice_alternative, once_alternative]
       = [twice_alternative, once_alternative]"
  by (simp add: key_set_def remove_duplicates_def once_alternative_def twice_alternative_def
      allocations_key_def)

section \<open>Loops that do not end\<close>

lemma traverse_returns:
  "(\<And>x. x \<in> set xs \<Longrightarrow> \<exists>y. f x = Inr y) \<Longrightarrow> \<exists>ys. traverse f xs = Inr ys"
proof (induction xs)
  case Nil
  then show ?case by simp
next
  case (Cons x xs)
  obtain y where y: "f x = Inr y" using Cons.prems by auto
  obtain ys where ys: "traverse f xs = Inr ys" using Cons by auto
  show ?case by (simp add: y ys)
qed

lemma priority_returns:
  assumes "\<forall>t \<in> set tasks. required_hours t \<noteq> 0"
  shows "\<exists>a. priority_based_allocation resources tasks = Inr a"
proof -
  let ?s = "priority_loop resources tasks"
  have "\<exists>ys. traverse (\<lambda>t. case py_div (hours_by_task (allocs ?s) (t_id t)) (required_hours t) of
                               Inl e \<Rightarrow> Inl e
                             | Inr q \<Rightarrow> Inr (of_int (6 - priority t) * min 1 q))
              (sort_key priority tasks) = Inr ys"
    by (rule traverse_returns) (use assms in \<open>simp add: py_div_def\<close>)
  then have "\<exists>b. priority_bonus (sort_key priority tasks) tasks (allocs ?s) = Inr b"
    by (auto simp: priority_bonus_def)
  then show ?thesis
    by (auto simp: priority_based_allocation_def Let_def)
qed

lemma balanced_returns:
  assumes "\<forall>t \<in> set tasks. required_hours t \<noteq> 0"
  shows "\<exists>a. balanced_allocation resources tasks = Inr a"
proof -
  let ?s = "balanced_loop resources tasks"
  have "\<exists>ys. traverse (\<lambda>t. py_div (hours_by_task (allocs ?s) (t_id t)) (required_hours t)) tasks
              = Inr ys"
    by (rule traverse_returns) (use assms in \<open>simp add: py_div_def\<close>)
  then have "\<exists>v. task_coverage_variance tasks (allocs ?s) = Inr v"
    by (auto simp: task_coverage_variance_def)
  then show ?thesis
    by (auto simp: balanced_allocation_def Let_def)
qed

lemma specialization_returns:
  "\<exists>a. specialization_based_allocation resources tasks = Inr a"
  by (simp add: specialization_based_allocation_def Let_def)

lemma generate_stops_at_overload:
  assumes "resources \<noteq> []" and "tasks \<noteq> []"
    and "\<forall>t \<in> set tasks. required_hours t \<noteq> 0"
    and "minimize_overload_allocation resources tasks = None"
  shows "generate_alternatives resources tasks = None"
proof -
  obtain a1 where a1: "priority_based_allocation resources tasks = Inr a1"
    using priority_returns [OF assms(3)] by blast
  obtain a2 where a2: "balanced_allocation resources tasks = Inr a2"
    using balanced_returns [OF assms(3)] by blast
  obtain a3 where a3: "specialization_based_allocation resources tasks = Inr a3"
    using specialization_returns by blast
  have "collect_alternatives resources tasks = None"
    by (simp add: collect_alternatives_def and_then_def a1 a2 a3 assms(4))
  then show ?thesis
    using assms(1,2) by (simp add: generate_alternatives_def and_then_def)
qed

lemma generate_stops_at_greedy:
  assumes "resources \<noteq> []" and "tasks \<noteq> []"
    and "\<forall>t \<in> set tasks. required_hours t \<noteq> 0"
    and "minimize_overload_allocation resources tasks = Some (Inr a4)"
    and "greedy_optimized_allocation resources tasks = None"
  shows "generate_alternatives resources tasks = None"
proof -
  obtain a1 where a1: "priority_based_allocation resources tasks = Inr a1"
    using priority_returns [OF assms(3)] by blast
  obtain a2 where a2: "balanced_allocation resources tasks = Inr a2"
    using balanced_returns [OF assms(3)] by blast
  obtain a3 where a3: "specialization_based_allocation resources tasks = Inr a3"
    using specialization_returns by blast
  have "collect_alternatives resources tasks = None"
    by (simp add: collect_alternatives_def and_then_def a1 a2 a3 assms(4,5))
  then show ?thesis
    using assms(1,2) by (simp add: generate_alternatives_def and_then_def)
qed

lemma tiny_overload_run:
  "minimize_overload_allocation small_resources tiny_tasks =
     Some (Inr (Some \<lparr>explanation = Overload_text 1 (1 / 20), score = 75,
                      allocations = [\<lparr>resource_id = 1, task_id = 1, hours = 1 / 20\<rparr>]\<rparr>))"
  by code_simp

lemma py_min_by_in: "py_min_by key x xs \<in> set (x # xs)"
  by (induction xs arbitrary: x) (auto split: if_splits)

lemma overload_stuck_step:
  assumes "overload_stuck resources ideal need s"
  shows "(if 0 < need then
        (let under_cap =
               filter (\<lambda>r. 0 < resource_hours s (r_id r)
                           \<and> resource_allocated s (r_id r) < ideal * (6 / 5))
                      resources;
             available_resources =
               (if under_cap = [] then filter (\<lambda>r. 0 < resource_hours s (r_id r)) resources
                else under_cap)
         in case available_resources of
              [] \<Rightarrow> Some s
            | r # rs \<Rightarrow>
                (let best_resource = py_min_by (\<lambda>r. resource_allocated s (r_id r)) r rs;
                     hours_to_allocate =
                       min need
                         (min (resource_hours s (r_id best_resource))
                              (ideal * (6 / 5)
                                 - resource_allocated s (r_id best_resource)))
                 in if 0 < hours_to_allocate then
                      f resources ideal t
                        (need - hours_to_allocate)
                        (add_load best_resource hours_to_allocate
                           (commit best_resource t hours_to_allocate s))
                    else f resources ideal t need s))
      else Some s) = f resources ideal t need s"
proof -
  let ?avail = "filter (\<lambda>r. 0 < resource_hours s (r_id r)) resources"
  have pos: "0 < need"
    and none: "filter (\<lambda>r. 0 < resource_hours s (r_id r)
                  \<and> resource_allocated s (r_id r) < ideal * (6 / 5)) resources = []"
    and some: "?avail \<noteq> []"
    using assms by (simp_all add: overload_stuck_def)
  obtain r rs where av: "?avail = r # rs" using some by (cases ?avail) auto
  let ?best = "py_min_by (\<lambda>r. resource_allocated s (r_id r)) r rs"
  have "?best \<in> set ?avail" unfolding av by (rule py_min_by_in)
  then have b: "?best \<in> set resources" "0 < resource_hours s (r_id ?best)" by auto
  have nocap: "\<not> resource_allocated s (r_id ?best) < ideal * (6 / 5)"
    using none b by (auto simp: filter_empty_conv)
  show ?thesis
    using pos none av b(2) nocap by (simp add: Let_def)
qed

lemma overload_while_stuck_aux:
  assumes "overload_while resources ideal t need s = Some y"
  shows "\<not> overload_stuck resources ideal need s"
  using assms
proof (induction rule: overload_while.raw_induct [rotated 1, consumes 1])
  case (1 f resources ideal t need s y)
  show ?case
  proof
    assume st: "overload_stuck resources ideal need s"
    from overload_stuck_step [OF st, of f t] "1.hyps"
    have "f resources ideal t need s = Some y" by simp
    from "1.IH" [OF this] st show False by simp
  qed
qed

lemma overload_while_stuck:
  "overload_stuck resources ideal need s \<Longrightarrow> overload_while resources ideal t need s = None"
  using overload_while_stuck_aux [of resources ideal t need s]
  by (cases "overload_while resources ideal t need s") auto


lemma greedy_stuck_step:
  assumes "greedy_stuck resources need s"
  shows "(if 0 < need then
        (case filter (\<lambda>r. 1 / 10 < resource_hours s (r_id r)) resources of
           [] \<Rightarrow> Some s
         | r # rs \<Rightarrow>
             (let best_resource =
                    py_max_by (\<lambda>r. (resource_hours s (r_id r) / max (resource_allocated s (r_id r)) 1,
                                    resource_hours s (r_id r))) r rs;
                  hours_to_allocate = min need (resource_hours s (r_id best_resource))
              in if 1 / 10 < hours_to_allocate then
                   f resources t (need - hours_to_allocate)
                     (add_total hours_to_allocate
                        (add_load best_resource hours_to_allocate
                           (commit best_resource t hours_to_allocate s)))
                 else f resources t need s))
      else Some s) = f resources t need s"
proof -
  let ?avail = "filter (\<lambda>r. 1 / 10 < resource_hours s (r_id r)) resources"
  have pos: "0 < need" and small: "need \<le> 1 / 10" and some: "?avail \<noteq> []"
    using assms by (simp_all add: greedy_stuck_def)
  obtain r rs where av: "?avail = r # rs" using some by (cases ?avail) auto
  let ?best = "py_max_by (\<lambda>r. (resource_hours s (r_id r) / max (resource_allocated s (r_id r)) 1,
                                    resource_hours s (r_id r))) r rs"
  have h: "(1 / 10 < min need (resource_hours s (r_id ?best))) = False" using small by auto
  show ?thesis
    by (simp only: pos if_True av list.case Let_def h if_False)
qed

lemma greedy_while_stuck_aux:
  assumes "greedy_while resources t need s = Some y"
  shows "\<not> greedy_stuck resources need s"
  using assms
proof (induction rule: greedy_while.raw_induct [rotated 1, consumes 1])
  case (1 f resources t need s y)
  show ?case
  proof
    assume st: "greedy_stuck resources need s"
    from greedy_stuck_step [OF st, of f t] "1.hyps"
    have "f resources t need s = Some y" by simp
    from "1.IH" [OF this] st show False by simp
  qed
qed

lemma greedy_while_stuck:
  "greedy_stuck resources need s \<Longrightarrow> greedy_while resources t need s = None"
  using greedy_while_stuck_aux [of resources t need s]
  by (cases "greedy_while resources t need s") auto

lemma greedy_strategy_never_returns:
  "greedy_optimized_allocation small_resources tiny_tasks = None"
proof -
  have "greedy_stuck small_resources (1 / 20) (init_state small_resources)"
    by (simp add: greedy_stuck_def small_resources_def init_state_def dict_of_def)
  then have "greedy_while small_resources (hd tiny_tasks) (1 / 20) (init_state small_resources)
             = None"
    by (rule greedy_while_stuck)
  then show ?thesis
    by (simp add: greedy_optimized_allocation_def greedy_loop_def tiny_tasks_def
        sort_by_priority_and_size_def dict_of_def)
qed

text \<open>
  The overload-minimizing strategy on resources of 100 and 1 hours and one task of 10
  hours: the ideal load is 5 and the cap 6. The first resource receives 6 hours, the
  second 1 hour; then no resource is under the cap, the fallback picks the first
  resource and the cap term makes the commitment 0.
\<close>

lemma stuck_first_commit:
  "overload_while stuck_resources 5 (hd stuck_tasks) 10 (init_state stuck_resources)
   = overload_while stuck_resources 5 (hd stuck_tasks) 4
       (add_load (stuck_resources ! 0) 6
          (commit (stuck_resources ! 0) (hd stuck_tasks) 6 (init_state stuck_resources)))"
  by (subst overload_while.simps)
    (simp add: stuck_resources_def stuck_tasks_def init_state_def dict_of_def Let_def)

lemma stuck_second_commit:
  "overload_while stuck_resources 5 (hd stuck_tasks) 4
       (add_load (stuck_resources ! 0) 6
          (commit (stuck_resources ! 0) (hd stuck_tasks) 6 (init_state stuck_resources)))
   = overload_while stuck_resources 5 (hd stuck_tasks) 3
       (add_load (stuck_resources ! 1) 1
          (commit (stuck_resources ! 1) (hd stuck_tasks) 1
            (add_load (stuck_resources ! 0) 6
              (commit (stuck_resources ! 0) (hd stuck_tasks) 6 (init_state stuck_resources)))))"
  by (subst overload_while.simps)
    (simp add: stuck_resources_def stuck_tasks_def init_state_def dict_of_def Let_def
      add_load_def commit_def)

lemma stuck_state:
  "overload_stuck stuck_resources 5 3
       (add_load (stuck_resources ! 1) 1
          (commit (stuck_resources ! 1) (hd stuck_tasks) 1
            (add_load (stuck_resources ! 0) 6
              (commit (stuck_resources ! 0) (hd stuck_tasks) 6 (init_state stuck_resources)))))"
  by (simp add: overload_stuck_def stuck_resources_def stuck_tasks_def init_state_def
      dict_of_def add_load_def commit_def)

lemma overload_strategy_never_returns:
  "minimize_overload_allocation stuck_resources stuck_tasks = None"
proof -
  have "overload_while stuck_resources 5 (hd stuck_tasks) 10 (init_state stuck_resources) = None"
    by (simp only: stuck_first_commit stuck_second_commit overload_while_stuck [OF stuck_state])
  moreover have "ideal_load_of stuck_resources stuck_tasks = 5"
    by (simp add: ideal_load_of_def stuck_resources_def stuck_tasks_def total_required_of_def)
  moreover have "total_available_of stuck_resources \<noteq> 0"
    by (simp add: total_available_of_def stuck_resources_def)
  moreover have "sort_by_priority_and_size stuck_tasks = [hd stuck_tasks]"
    by (simp add: sort_by_priority_and_size_def stuck_tasks_def)
  moreover have "dict_of t_id required_hours stuck_tasks (t_id (hd stuck_tasks)) = 10"
    by (simp add: dict_of_def stuck_tasks_def)
  ultimately show ?thesis
    by (simp add: minimize_overload_allocation_def overload_loop_def)
qed

text \<open>
  Claim C2 fails on the code. With one resource of 10 hours and one task that requires
  0.05 hours, the greedy loop selects the resource, computes a commitment of 0.05 hours,
  discards it as below the threshold and starts again in the same state: the strategy
  never returns, and neither does \<open>generate_alternatives\<close>.
\<close>

theorem greedy_loop_never_ends:
  "greedy_optimized_allocation small_resources tiny_tasks = None
   \<and> generate_alternatives small_resources tiny_tasks = None"
proof -
  have "generate_alternatives small_resources tiny_tasks = None"
    by (rule generate_stops_at_greedy [OF _ _ _ tiny_overload_run greedy_strategy_never_returns])
      (simp_all add: small_resources_def tiny_tasks_def)
  then show ?thesis using greedy_strategy_never_returns by simp
qed

text \<open>
  Claim C1 fails on the code. The cap term is part of the committed amount also when
  the resource comes from the fallback, so the amount is not positive there, nothing is
  committed and the loop starts again in the same state: with resources of 100 and 1
  hours and one task of 10 hours the strategy never returns, and neither does
  \<open>generate_alternatives\<close>.
\<close>

theorem overload_loop_never_ends:
  "minimize_overload_allocation stuck_resources stuck_tasks = None
   \<and> generate_alternatives stuck_resources stuck_tasks = None"
proof -
  have "generate_alternatives stuck_resources stuck_tasks = None"
    by (rule generate_stops_at_overload [OF _ _ _ overload_strategy_never_returns])
      (simp_all add: stuck_resources_def stuck_tasks_def)
  then show ?thesis using overload_strategy_never_returns by simp
qed

section \<open>Commitments and the capacity of a resource\<close>


lemma counter_inv_add_load [simp]: "counter_inv H (add_load r h s) = counter_inv H s"
  by (simp add: counter_inv_def add_load_def)

lemma counter_inv_add_total [simp]: "counter_inv H (add_total h s) = counter_inv H s"
  by (simp add: counter_inv_def add_total_def)

lemma counter_inv_type_matches [simp]: "counter_inv H (s\<lparr>type_matches := n\<rparr>) = counter_inv H s"
  by (simp add: counter_inv_def)


lemma need_inv_add_load [simp]: "need_inv R (add_load r h s) = need_inv R s"
  by (simp add: need_inv_def add_load_def)

lemma need_inv_add_total [simp]: "need_inv R (add_total h s) = need_inv R s"
  by (simp add: need_inv_def add_total_def)

lemma need_inv_type_matches [simp]: "need_inv R (s\<lparr>type_matches := n\<rparr>) = need_inv R s"
  by (simp add: need_inv_def)

lemma resource_hours_add_load [simp]: "resource_hours (add_load r h s) = resource_hours s"
  by (simp add: add_load_def)

lemma resource_hours_add_total [simp]: "resource_hours (add_total h s) = resource_hours s"
  by (simp add: add_total_def)




































section \<open>Commitments and the need of a task\<close>




end
